theory Spec2Isabelle
  imports Complex_Main "HOL-Library.AList" "HOL-Library.Monad_Syntax"
begin

section \<open>Python values\<close>

text \<open>
  A Python \<open>str\<close> is a sequence of Unicode code points, so it is modelled as a list of
  natural numbers (a \<open>char\<close> of HOL has eight bits only and could not hold the dash
  U+2014 of the sanitizer's example). \<open>py\<close> turns an ASCII literal into such a list.
  \<open>bytes\<close> are lists of eight-bit characters.
\<close>

type_synonym pystr = "nat list"
type_synonym bytes = "string"

definition py :: "string \<Rightarrow> pystr" where
  "py s = map of_char s"

text \<open>
  The values of the data bag are what \<open>json.loads\<close> and \<open>response.json()\<close> produce.
  A dict is an association list in insertion order; numbers are integers (floats are
  outside the model).
\<close>

datatype json =
    JNull
  | JBool bool
  | JNum int
  | JStr pystr
  | JArr "json list"
  | JObj "(pystr \<times> json) list"

type_synonym pydict = "(pystr \<times> json) list"

text \<open>An exception is represented by its text \<open>str(e)\<close>.\<close>

type_synonym exn = pystr

text \<open>Truth value testing, as \<open>if x:\<close>, \<open>not x\<close> and \<open>x or y\<close> use it.\<close>

fun truthy :: "json \<Rightarrow> bool" where
  "truthy JNull = False"
| "truthy (JBool b) = b"
| "truthy (JNum n) = (n \<noteq> 0)"
| "truthy (JStr s) = (s \<noteq> [])"
| "truthy (JArr xs) = (xs \<noteq> [])"
| "truthy (JObj kvs) = (kvs \<noteq> [])"

definition py_or :: "json \<Rightarrow> json \<Rightarrow> json" where
  "py_or a b = (if truthy a then a else b)"

text \<open>\<open>d.get(k)\<close>: the value, or \<open>None\<close> when the key is missing.\<close>

definition dict_get :: "pydict \<Rightarrow> pystr \<Rightarrow> json" where
  "dict_get d k = (case map_of d k of None \<Rightarrow> JNull | Some v \<Rightarrow> v)"

text \<open>\<open>d[k] = v\<close> and \<open>d.update(e)\<close>: an existing key keeps its position.\<close>

definition dict_set :: "pydict \<Rightarrow> pystr \<Rightarrow> json \<Rightarrow> pydict" where
  "dict_set d k v = AList.update k v d"

definition dict_update :: "pydict \<Rightarrow> pydict \<Rightarrow> pydict" where
  "dict_update d e = fold (\<lambda>(k, v) acc. dict_set acc k v) e d"

section \<open>What the interpreter and its libraries supply\<close>

text \<open>
  The character tables of Unicode, the \<open>repr\<close> of containers and \<open>pathlib\<close> are not
  code of the repository. Below code point 128 the classes are written out; from 128 on
  they are read from this record.
\<close>

record pyrt =
  uni_alnum :: "nat \<Rightarrow> bool"
  uni_space :: "nat \<Rightarrow> bool"
  uni_decimal :: "nat \<Rightarrow> bool"
  uni_lower :: "pystr \<Rightarrow> pystr"
  container_repr :: "json \<Rightarrow> pystr"
  path_join :: "pystr \<Rightarrow> pystr \<Rightarrow> pystr"

definition ascii_digit :: "nat \<Rightarrow> bool" where
  "ascii_digit c = (48 \<le> c \<and> c \<le> 57)"

definition ascii_alpha :: "nat \<Rightarrow> bool" where
  "ascii_alpha c = ((65 \<le> c \<and> c \<le> 90) \<or> (97 \<le> c \<and> c \<le> 122))"

definition ascii_space :: "nat \<Rightarrow> bool" where
  "ascii_space c = ((9 \<le> c \<and> c \<le> 13) \<or> (28 \<le> c \<and> c \<le> 32))"

text \<open>The regular-expression classes \<open>\<bsol>d\<close>, \<open>\<bsol>w\<close> and \<open>\<bsol>s\<close> on \<open>str\<close> patterns.\<close>

definition re_digit :: "pyrt \<Rightarrow> nat \<Rightarrow> bool" where
  "re_digit U c = (if c < 128 then ascii_digit c else uni_decimal U c)"

definition re_word :: "pyrt \<Rightarrow> nat \<Rightarrow> bool" where
  "re_word U c =
     (if c < 128 then ascii_alpha c \<or> ascii_digit c \<or> c = 95 else uni_alnum U c)"

definition re_space :: "pyrt \<Rightarrow> nat \<Rightarrow> bool" where
  "re_space U c = (if c < 128 then ascii_space c else uni_space U c)"

text \<open>\<open>s.strip()\<close> and \<open>s.lower()\<close>.\<close>

definition py_strip :: "pyrt \<Rightarrow> pystr \<Rightarrow> pystr" where
  "py_strip U s = rev (dropWhile (re_space U) (rev (dropWhile (re_space U) s)))"

definition ascii_lower :: "nat \<Rightarrow> nat" where
  "ascii_lower c = (if 65 \<le> c \<and> c \<le> 90 then c + 32 else c)"

definition py_lower :: "pyrt \<Rightarrow> pystr \<Rightarrow> pystr" where
  "py_lower U s = (if \<forall>c \<in> set s. c < 128 then map ascii_lower s else uni_lower U s)"

text \<open>\<open>sub in s\<close> on strings.\<close>

fun is_prefix :: "pystr \<Rightarrow> pystr \<Rightarrow> bool" where
  "is_prefix [] ys = True"
| "is_prefix (x # xs) [] = False"
| "is_prefix (x # xs) (y # ys) = (x = y \<and> is_prefix xs ys)"

fun py_in :: "pystr \<Rightarrow> pystr \<Rightarrow> bool" where
  "py_in sub [] = (sub = [])"
| "py_in sub (c # cs) = (is_prefix sub (c # cs) \<or> py_in sub cs)"

text \<open>Decimal text of an \<open>int\<close>, as an f-string prints it.\<close>

function digits_of :: "nat \<Rightarrow> pystr" where
  "digits_of n = (if n < 10 then [48 + n] else digits_of (n div 10) @ [48 + n mod 10])"
  by pat_completeness auto
termination
  by (relation "measure id") auto

declare digits_of.simps [simp del]

definition int_str :: "int \<Rightarrow> pystr" where
  "int_str i = (if i < 0 then 45 # digits_of (nat (- i)) else digits_of (nat i))"

text \<open>\<open>str(v)\<close>, which is what \<open>f"{v}"\<close> inserts.\<close>

fun py_str :: "pyrt \<Rightarrow> json \<Rightarrow> pystr" where
  "py_str U JNull = py ''None''"
| "py_str U (JBool b) = (if b then py ''True'' else py ''False'')"
| "py_str U (JNum n) = int_str n"
| "py_str U (JStr s) = s"
| "py_str U (JArr xs) = container_repr U (JArr xs)"
| "py_str U (JObj kvs) = container_repr U (JObj kvs)"

section \<open>utils.py\<close>

text \<open>
  \<open>extract_bdns_from_url\<close>: \<open>re.search(r'/(\<bsol>d+)$', url)\<close>. Without \<open>re.MULTILINE\<close>
  the \<open>$\<close> matches at the end of the string and just before a newline that ends the
  string, so one final newline is set aside first. The digits must reach that end and
  the slash must stand right before them.
\<close>

definition extract_bdns_from_url :: "pyrt \<Rightarrow> pystr \<Rightarrow> pystr option" where
  "extract_bdns_from_url U url =
     (let body = (if url \<noteq> [] \<and> last url = 10 then butlast url else url);
          digits = rev (takeWhile (re_digit U) (rev body));
          before = rev (dropWhile (re_digit U) (rev body))
      in if digits \<noteq> [] \<and> before \<noteq> [] \<and> last before = 47 then Some digits else None)"

text \<open>
  \<open>re.sub(r'[-\<bsol>s]+', '_', s)\<close>: every maximal run of hyphens and whitespace becomes one
  underscore.
\<close>

definition is_sep :: "pyrt \<Rightarrow> nat \<Rightarrow> bool" where
  "is_sep U c = (c = 45 \<or> re_space U c)"

function sub_runs :: "pyrt \<Rightarrow> pystr \<Rightarrow> pystr" where
  "sub_runs U [] = []"
| "sub_runs U (c # cs) =
     (if is_sep U c then 95 # sub_runs U (dropWhile (is_sep U) cs) else c # sub_runs U cs)"
  by pat_completeness auto
termination
  by (relation "measure (\<lambda>(U, s). length s)") (auto simp: less_Suc_eq_le length_dropWhile_le)

definition clean_filename :: "pyrt \<Rightarrow> pystr \<Rightarrow> nat \<Rightarrow> pystr" where
  "clean_filename U filename max_length =
     (let safe_name = filter (\<lambda>c. re_word U c \<or> re_space U c \<or> c = 45) filename;
          safe_name = sub_runs U safe_name
      in take max_length safe_name)"

text \<open>
  \<open>extract_json_from_text\<close>: \<open>re.search(r'\<bsol>{.*\<bsol>}', text, re.DOTALL)\<close>. The search
  starts at the first opening brace; the greedy \<open>.*\<close> then runs to the last closing
  brace behind it. \<open>json_span\<close> is \<open>json_match.group()\<close>, or \<open>None\<close> when nothing matches.
\<close>

definition json_span :: "pystr \<Rightarrow> pystr option" where
  "json_span text =
     (case dropWhile (\<lambda>c. c \<noteq> 123) text of
        [] \<Rightarrow> None
      | b # rest \<Rightarrow>
          (let inner = rev (dropWhile (\<lambda>c. c \<noteq> 125) (rev rest))
           in if inner = [] then None else Some (b # inner)))"

text \<open>
  \<open>json.loads\<close> is the library's parser. It is only ever called on a text that begins
  with an opening brace, where it returns a dict, or raises \<open>JSONDecodeError\<close>, or
  raises something else (a \<open>ValueError\<close> for an integer literal beyond the digit
  limit, a \<open>RecursionError\<close>). The function catches \<open>JSONDecodeError\<close> only and
  returns \<open>None\<close> then (\<open>Inr None\<close>); any other exception leaves it (\<open>Inl\<close>).
\<close>

definition extract_json_from_text ::
  "(pystr \<Rightarrow> exn + pydict option) \<Rightarrow> pystr \<Rightarrow> exn + pydict option" where
  "extract_json_from_text json_loads text =
     (case json_span text of
        Some matched \<Rightarrow> json_loads matched
      | None \<Rightarrow> Inr None)"

text \<open>\<open>validate_pdf_content\<close>: \<open>content.startswith(b'%PDF')\<close>.\<close>

definition validate_pdf_content :: "bytes \<Rightarrow> bool" where
  "validate_pdf_content content = (take 4 content = ''%PDF'')"

section \<open>schemas.py\<close>

record SubsidyIdentification =
  organismo_emisor :: pystr
  titulo_convocatoria :: pystr
  base_reguladora :: pystr

record SubsidyDetails =
  beneficiarios :: "pystr list"
  finalidad_ayuda :: pystr

record EconomicConditions =
  presupuesto_total :: pystr
  distribucion_territorial :: "(pystr \<times> pystr) list option"
  cuantia_por_solicitud :: pystr

record DeadlinesAndProcedure =
  plazo_presentacion :: pystr
  plazo_resolucion :: pystr
  medio_presentacion :: pystr
  enlace_tramite :: "pystr option"

record SubsidyAnalysisResult =
  identificacion :: SubsidyIdentification
  detalles :: SubsidyDetails
  condiciones_economicas :: EconomicConditions
  plazos_procedimiento :: DeadlinesAndProcedure
  metadata :: pydict

text \<open>
  \<open>SubsidyAnalysisResult(**analysis_json)\<close> validates the keyword arguments against the
  field declarations above (pydantic 2: a \<open>str\<close> field takes a string only, a missing
  required field or a \<open>None\<close> in it is an error, an \<open>Optional\<close> field may be missing or
  \<open>None\<close>, a nested model is built from a dict, unknown keys are ignored). \<open>None\<close> stands
  for the \<open>ValidationError\<close>.
\<close>

definition field_str :: "pydict \<Rightarrow> pystr \<Rightarrow> pystr option" where
  "field_str d k = (case map_of d k of Some (JStr s) \<Rightarrow> Some s | _ \<Rightarrow> None)"

definition field_opt_str :: "pydict \<Rightarrow> pystr \<Rightarrow> pystr option option" where
  "field_opt_str d k =
     (case map_of d k of
        None \<Rightarrow> Some None
      | Some JNull \<Rightarrow> Some None
      | Some (JStr s) \<Rightarrow> Some (Some s)
      | _ \<Rightarrow> None)"

fun all_str :: "json list \<Rightarrow> pystr list option" where
  "all_str [] = Some []"
| "all_str (JStr s # vs) = map_option ((#) s) (all_str vs)"
| "all_str (_ # vs) = None"

fun all_str_values :: "pydict \<Rightarrow> (pystr \<times> pystr) list option" where
  "all_str_values [] = Some []"
| "all_str_values ((k, JStr s) # kvs) = map_option ((#) (k, s)) (all_str_values kvs)"
| "all_str_values (_ # kvs) = None"

definition field_str_list :: "pydict \<Rightarrow> pystr \<Rightarrow> pystr list option" where
  "field_str_list d k = (case map_of d k of Some (JArr vs) \<Rightarrow> all_str vs | _ \<Rightarrow> None)"

definition field_opt_str_dict :: "pydict \<Rightarrow> pystr \<Rightarrow> (pystr \<times> pystr) list option option" where
  "field_opt_str_dict d k =
     (case map_of d k of
        None \<Rightarrow> Some None
      | Some JNull \<Rightarrow> Some None
      | Some (JObj kvs) \<Rightarrow> map_option Some (all_str_values kvs)
      | _ \<Rightarrow> None)"

definition field_dict :: "pydict \<Rightarrow> pystr \<Rightarrow> pydict option" where
  "field_dict d k = (case map_of d k of Some (JObj kvs) \<Rightarrow> Some kvs | _ \<Rightarrow> None)"

definition validate_identification :: "pydict \<Rightarrow> SubsidyIdentification option" where
  "validate_identification d = do {
     a \<leftarrow> field_str d (py ''organismo_emisor'');
     b \<leftarrow> field_str d (py ''titulo_convocatoria'');
     c \<leftarrow> field_str d (py ''base_reguladora'');
     Some \<lparr>organismo_emisor = a, titulo_convocatoria = b, base_reguladora = c\<rparr>
   }"

definition validate_details :: "pydict \<Rightarrow> SubsidyDetails option" where
  "validate_details d = do {
     a \<leftarrow> field_str_list d (py ''beneficiarios'');
     b \<leftarrow> field_str d (py ''finalidad_ayuda'');
     Some \<lparr>beneficiarios = a, finalidad_ayuda = b\<rparr>
   }"

definition validate_economic :: "pydict \<Rightarrow> EconomicConditions option" where
  "validate_economic d = do {
     a \<leftarrow> field_str d (py ''presupuesto_total'');
     b \<leftarrow> field_opt_str_dict d (py ''distribucion_territorial'');
     c \<leftarrow> field_str d (py ''cuantia_por_solicitud'');
     Some \<lparr>presupuesto_total = a, distribucion_territorial = b, cuantia_por_solicitud = c\<rparr>
   }"

definition validate_deadlines :: "pydict \<Rightarrow> DeadlinesAndProcedure option" where
  "validate_deadlines d = do {
     a \<leftarrow> field_str d (py ''plazo_presentacion'');
     b \<leftarrow> field_str d (py ''plazo_resolucion'');
     c \<leftarrow> field_str d (py ''medio_presentacion'');
     e \<leftarrow> field_opt_str d (py ''enlace_tramite'');
     Some \<lparr>plazo_presentacion = a, plazo_resolucion = b, medio_presentacion = c,
           enlace_tramite = e\<rparr>
   }"

definition validate_result :: "pydict \<Rightarrow> SubsidyAnalysisResult option" where
  "validate_result d = do {
     i \<leftarrow> Option.bind (field_dict d (py ''identificacion'')) validate_identification;
     t \<leftarrow> Option.bind (field_dict d (py ''detalles'')) validate_details;
     c \<leftarrow> Option.bind (field_dict d (py ''condiciones_economicas'')) validate_economic;
     p \<leftarrow> Option.bind (field_dict d (py ''plazos_procedimiento'')) validate_deadlines;
     m \<leftarrow> (case map_of d (py ''metadata'') of
              None \<Rightarrow> Some []
            | Some (JObj kvs) \<Rightarrow> Some kvs
            | _ \<Rightarrow> None);
     Some \<lparr>identificacion = i, detalles = t, condiciones_economicas = c,
           plazos_procedimiento = p, metadata = m\<rparr>
   }"

text \<open>
  The entries of \<open>pdf_urls\<close> and \<open>pdf_texts\<close>. The name and the id of a document are
  copied from the data bag unchanged, so they are JSON values.
\<close>

record pdf_ref =
  url :: pystr
  name :: json
  id_key :: json

record pdf_text =
  filename :: json
  text_key :: pystr
  path :: pystr

text \<open>
  \<open>SubsidyState\<close>, the dict every node receives and returns. \<open>bdns_code\<close> and
  \<open>source_url\<close> may be filled from the data bag and are JSON values too. The last
  field is not a key of the dict: it collects what the nodes write through the
  module's \<open>logger\<close>.
\<close>

datatype level = INFO | WARNING | ERROR

record SubsidyState =
  bdns_code :: json
  source_url :: json
  subsidy_data :: pydict
  pdf_urls :: "pdf_ref list"
  pdf_texts :: "pdf_text list"
  pdf_count :: int
  analysis_result :: "SubsidyAnalysisResult option"
  raw_analysis :: "pydict option"
  error :: "pystr option"
  logs :: "pystr list"
  processing_time :: "real option"
  console :: "(level \<times> pystr) list"

definition logger_info :: "pystr \<Rightarrow> SubsidyState \<Rightarrow> SubsidyState" where
  "logger_info m s = s\<lparr>console := console s @ [(INFO, m)]\<rparr>"

definition logger_warning :: "pystr \<Rightarrow> SubsidyState \<Rightarrow> SubsidyState" where
  "logger_warning m s = s\<lparr>console := console s @ [(WARNING, m)]\<rparr>"

definition logger_error :: "pystr \<Rightarrow> SubsidyState \<Rightarrow> SubsidyState" where
  "logger_error m s = s\<lparr>console := console s @ [(ERROR, m)]\<rparr>"

text \<open>\<open>state["logs"] = state.get("logs", []) + [m]\<close>\<close>

definition add_log :: "pystr \<Rightarrow> SubsidyState \<Rightarrow> SubsidyState" where
  "add_log m s = s\<lparr>logs := logs s @ [m]\<rparr>"

section \<open>The collaborators\<close>

text \<open>
  The network, the file system, the
  PDF reader, the language model, the JSON parser and the clock are parameters of the
  nodes; within one run the same request gets the same answer.

  \<open>session_get\<close> is \<open>session.get(url, ...)\<close>: it raises or returns a response. A
  response carries its status, its bytes, its text and what \<open>response.json()\<close> gives:
  an exception or, the registry answering with a JSON object, a dict. A failure while
  the body is read counts as a failure of the request. \<open>mkdir\<close> and \<open>write_bytes\<close>
  give the exception they raise, if any. \<open>pdf_pages\<close> is \<open>PyPDF2.PdfReader\<close> followed
  by \<open>extract_text\<close> on every page: the page texts, or an exception. \<open>llm_invoke\<close>
  gives the text of the response and the token usage list, or an exception;
  \<open>validation_text\<close> is the text of the \<open>ValidationError\<close> of pydantic; \<open>elapsed\<close> is
  the difference of the two clock readings of an entry point.
\<close>


record response =
  status_code :: int
  content :: bytes
  resp_text :: pystr
  json_body :: "exn + pydict"

record token_usage_entry =
  usage_model_name :: pystr
  input_tokens :: int
  output_tokens :: int

datatype prompt =
    ANALYSIS_PROMPT_WITH_PDF pydict pystr
  | ANALYSIS_PROMPT_WITHOUT_PDF pydict

datatype save_data = Structured SubsidyAnalysisResult | Raw pydict

record env =
  rt :: pyrt
  session_get :: "pystr \<Rightarrow> exn + response"
  mkdir :: "pystr \<Rightarrow> exn option"
  write_bytes :: "pystr \<Rightarrow> bytes \<Rightarrow> exn option"
  pdf_pages :: "bytes \<Rightarrow> exn + pystr list"
  llm_invoke :: "prompt \<Rightarrow> exn + (pystr \<times> token_usage_entry list)"
  model_name :: pystr
  json_loads :: "pystr \<Rightarrow> exn + pydict option"
  now_isoformat :: pystr
  now_strftime :: pystr
  dump_json :: "pystr \<Rightarrow> save_data \<Rightarrow> exn option"
  validation_text :: "pydict \<Rightarrow> exn"
  elapsed :: real

text \<open>\<open>create_download_directory\<close>: the path, unless \<open>mkdir\<close> raises.\<close>

definition create_download_directory :: "env \<Rightarrow> exn + pystr" where
  "create_download_directory E =
     (case mkdir E (py ''downloaded_files'') of
        Some e \<Rightarrow> Inl e
      | None \<Rightarrow> Inr (py ''downloaded_files''))"

text \<open>The names of the types, for the texts of \<open>TypeError\<close> and \<open>AttributeError\<close>.\<close>

fun type_name :: "json \<Rightarrow> pystr" where
  "type_name JNull = py ''NoneType''"
| "type_name (JBool b) = py ''bool''"
| "type_name (JNum n) = py ''int''"
| "type_name (JStr s) = py ''str''"
| "type_name (JArr xs) = py ''list''"
| "type_name (JObj kvs) = py ''dict''"

definition re_type_error :: "json \<Rightarrow> exn" where
  "re_type_error v = py ''expected string or bytes-like object, got '' @ [39] @ type_name v @ [39]"

definition attribute_error :: "json \<Rightarrow> string \<Rightarrow> exn" where
  "attribute_error v a =
     [39] @ type_name v @ [39] @ py '' object has no attribute '' @ [39] @ py a @ [39]"

definition len_type_error :: "json \<Rightarrow> exn" where
  "len_type_error v = py ''object of type '' @ [39] @ type_name v @ [39] @ py '' has no len()''"

fun py_len :: "json \<Rightarrow> exn + int" where
  "py_len (JStr s) = Inr (int (length s))"
| "py_len (JArr xs) = Inr (int (length xs))"
| "py_len (JObj kvs) = Inr (int (length kvs))"
| "py_len v = Inl (len_type_error v)"

text \<open>
  What \<open>for doc in v\<close> visits: the elements of a list, the characters of a string, the
  keys of a dict. (The other values are not iterable; \<open>len\<close> has raised before.)
\<close>

fun py_iter :: "json \<Rightarrow> json list" where
  "py_iter (JArr xs) = xs"
| "py_iter (JStr s) = map (\<lambda>c. JStr [c]) s"
| "py_iter (JObj kvs) = map (\<lambda>kv. JStr (fst kv)) kvs"
| "py_iter v = []"

fun py_join :: "pystr \<Rightarrow> pystr list \<Rightarrow> pystr" where
  "py_join sep [] = []"
| "py_join sep [x] = x"
| "py_join sep (x # y # ys) = x @ sep @ py_join sep (y # ys)"

section \<open>nodes.py\<close>

text \<open>
  Every node is \<open>try: ... except Exception as e: logger.error(...); state["error"] = ...;
  return state\<close>. The body of the \<open>try\<close> is a function that returns either the state
  it ends with, or the exception together with the state at the moment it was raised;
  \<open>catch\<close> is the handler.
\<close>

type_synonym outcome = "(exn \<times> SubsidyState) + SubsidyState"

definition catch :: "string \<Rightarrow> outcome \<Rightarrow> SubsidyState" where
  "catch what r =
     (case r of
        Inr s \<Rightarrow> s
      | Inl (e, s) \<Rightarrow> (logger_error (py what @ e) s)\<lparr>error := Some (py what @ e)\<rparr>)"

subsection \<open>extract_bdns_node\<close>

definition extract_bdns_body :: "env \<Rightarrow> SubsidyState \<Rightarrow> outcome" where
  "extract_bdns_body E s =
     (let bdns = bdns_code s; src = source_url s
      in case (if \<not> truthy bdns \<and> truthy src then
                 (case src of
                    JStr u \<Rightarrow>
                      (case extract_bdns_from_url (rt E) u of
                         Some d \<Rightarrow>
                           Inr (JStr d,
                                (logger_info (py ''BDNS code extracted from URL: '' @ d) s)
                                  \<lparr>bdns_code := JStr d\<rparr>)
                       | None \<Rightarrow> Inr (JNull, s))
                  | _ \<Rightarrow> Inl (re_type_error src, s))
               else Inr (bdns, s)) of
           Inl x \<Rightarrow> Inl x
         | Inr (bdns1, s1) \<Rightarrow>
             (let (bdns2, s2) =
                    (if \<not> truthy bdns1 then
                       (let c = py_or (dict_get (subsidy_data s1) (py ''codigo_bdns''))
                                      (dict_get (subsidy_data s1) (py ''bdns_code''))
                        in (c, if truthy c then s1\<lparr>bdns_code := c\<rparr> else s1))
                     else (bdns1, s1))
              in if \<not> truthy bdns2 then
                   Inr (s2\<lparr>error := Some (py ''No BDNS code could be extracted'')\<rparr>)
                 else Inr (add_log (py ''BDNS code: '' @ py_str (rt E) bdns2) s2)))"

definition extract_bdns_node :: "env \<Rightarrow> SubsidyState \<Rightarrow> SubsidyState" where
  "extract_bdns_node E s = catch ''Error extracting BDNS: '' (extract_bdns_body E s)"

subsection \<open>fetch_subsidy_info_node\<close>

text \<open>
  \<open>session.get\<close> may raise (a network failure) and so may \<open>response.json()\<close>. The
  request headers are constants and play no part.
\<close>

definition api_url_of :: "env \<Rightarrow> json \<Rightarrow> pystr" where
  "api_url_of E bdns =
     py ''https://www.subvenciones.gob.es/bdnstrans/api/convocatorias?numConv=''
       @ py_str (rt E) bdns @ py ''&vpd=GE''"

definition fetch_subsidy_info_body :: "env \<Rightarrow> SubsidyState \<Rightarrow> outcome" where
  "fetch_subsidy_info_body E s =
     (let bdns = bdns_code s
      in if \<not> truthy bdns then
           Inr (s\<lparr>error := Some (py ''No BDNS code available for API call'')\<rparr>)
         else
           (let api_url = api_url_of E bdns;
                s1 = logger_info (py ''Calling API: '' @ api_url) s
            in case session_get E api_url of
                 Inl e \<Rightarrow> Inl (e, s1)
               | Inr r \<Rightarrow>
                   if status_code r = 200 then
                     (case json_body r of
                        Inl e \<Rightarrow> Inl (e, s1)
                      | Inr data \<Rightarrow>
                          (let s2 = logger_info
                                      (py ''API response received: ''
                                         @ int_str (int (length (resp_text r)))
                                         @ py '' characters'') s1;
                               s3 = s2\<lparr>subsidy_data := dict_update (subsidy_data s2) data\<rparr>
                           in Inr (add_log (py ''API data fetched successfully'') s3)))
                   else
                     Inr (add_log
                            (py ''API call failed with status: '' @ int_str (status_code r))
                            (logger_warning
                               (py ''API returned status code: '' @ int_str (status_code r))
                               s1))))"

definition fetch_subsidy_info_node :: "env \<Rightarrow> SubsidyState \<Rightarrow> SubsidyState" where
  "fetch_subsidy_info_node E s =
     catch ''Error fetching subsidy info: '' (fetch_subsidy_info_body E s)"

subsection \<open>find_pdf_urls_node\<close>

text \<open>
  The three values read from one entry of \<open>documentos\<close>; \<open>doc.get\<close> exists on a dict
  only.
\<close>

definition display_name :: "pydict \<Rightarrow> json" where
  "display_name d =
     py_or (py_or (py_or (dict_get d (py ''nombreFic'')) (dict_get d (py ''nombre'')))
                  (dict_get d (py ''name'')))
           (JStr (py ''Unknown''))"

definition declared_type :: "pydict \<Rightarrow> json" where
  "declared_type d = py_or (py_or (dict_get d (py ''tipo'')) (dict_get d (py ''type''))) (JStr [])"

definition doc_fields :: "json \<Rightarrow> exn + (json \<times> json \<times> json)" where
  "doc_fields doc =
     (case doc of
        JObj d \<Rightarrow> Inr (display_name d, declared_type d, dict_get d (py ''id''))
      | _ \<Rightarrow> Inl (attribute_error doc ''get''))"

text \<open>
  \<open>(doc_type == 'PDF' or 'pdf' in doc_name.lower()) and doc_id\<close>. The \<open>or\<close> does not
  look at the name when the type is \<open>'PDF'\<close>; otherwise \<open>.lower()\<close> exists on a string
  only.
\<close>

definition is_pdf_candidate :: "pyrt \<Rightarrow> json \<Rightarrow> json \<Rightarrow> json \<Rightarrow> exn + bool" where
  "is_pdf_candidate U doc_type doc_name doc_id =
     (if doc_type = JStr (py ''PDF'') then Inr (truthy doc_id)
      else
        (case doc_name of
           JStr n \<Rightarrow> Inr (py_in (py ''pdf'') (py_lower U n) \<and> truthy doc_id)
         | _ \<Rightarrow> Inl (attribute_error doc_name ''lower'')))"

definition doc_url_of :: "env \<Rightarrow> json \<Rightarrow> json \<Rightarrow> pystr" where
  "doc_url_of E bdns doc_id =
     py ''https://www.subvenciones.gob.es/bdnstrans/GE/es/convocatoria/''
       @ py_str (rt E) bdns @ py ''/document/'' @ py_str (rt E) doc_id"

fun find_loop ::
  "env \<Rightarrow> json \<Rightarrow> json list \<Rightarrow> pdf_ref list \<Rightarrow> SubsidyState
     \<Rightarrow> (exn \<times> SubsidyState) + (pdf_ref list \<times> SubsidyState)" where
  "find_loop E bdns [] acc s = Inr (acc, s)"
| "find_loop E bdns (doc # docs) acc s =
     (case doc_fields doc of
        Inl e \<Rightarrow> Inl (e, s)
      | Inr (doc_name, doc_type, doc_id) \<Rightarrow>
          (case is_pdf_candidate (rt E) doc_type doc_name doc_id of
             Inl e \<Rightarrow> Inl (e, s)
           | Inr False \<Rightarrow> find_loop E bdns docs acc s
           | Inr True \<Rightarrow>
               find_loop E bdns docs
                 (acc @ [\<lparr>url = doc_url_of E bdns doc_id, name = doc_name, id_key = doc_id\<rparr>])
                 (logger_info (py ''Found PDF: '' @ py_str (rt E) doc_name) s)))"

definition find_pdf_urls_body :: "env \<Rightarrow> SubsidyState \<Rightarrow> outcome" where
  "find_pdf_urls_body E s =
     (let data = subsidy_data s;
          bdns = bdns_code s;
          documentos = dict_get data (py ''documentos'')
      in case (if truthy documentos then
                 (case py_len documentos of
                    Inl e \<Rightarrow> Inl (e, s)
                  | Inr n \<Rightarrow>
                      find_loop E bdns (py_iter documentos) []
                        (logger_info (py ''Found '' @ int_str n @ py '' documents in API'') s))
               else Inr ([], logger_info (py ''No documents found in API response'') s)) of
           Inl x \<Rightarrow> Inl x
         | Inr (found, s1) \<Rightarrow>
             Inr (add_log (py ''Found '' @ int_str (int (length found)) @ py '' PDFs'')
                    (s1\<lparr>pdf_urls := found\<rparr>)))"

definition find_pdf_urls_node :: "env \<Rightarrow> SubsidyState \<Rightarrow> SubsidyState" where
  "find_pdf_urls_node E s = catch ''Error finding PDFs: '' (find_pdf_urls_body E s)"

subsection \<open>download_pdfs_node\<close>

text \<open>
  One pass of the \<open>for pdf_info in pdf_urls\<close> loop: the entry it appends to
  \<open>pdf_texts\<close>, if any, and what it writes through the logger. Everything from the
  request to the text extraction is inside the inner \<open>try\<close>; \<open>clean_filename\<close> hands
  the name to \<open>re.sub\<close>, which raises on anything but a string.
\<close>

definition page_text :: "pystr list \<Rightarrow> pystr" where
  "page_text pages = concat (map (\<lambda>p. p @ [10]) pages)"

definition download_one ::
  "env \<Rightarrow> json \<Rightarrow> pystr \<Rightarrow> pdf_ref \<Rightarrow> pdf_text option \<times> (level \<times> pystr) list" where
  "download_one E bdns download_dir pdf_info =
     (let pdf_url = url pdf_info;
          doc_name = name pdf_info;
          shown = py_str (rt E) doc_name;
          out = [(INFO, py ''Downloading: '' @ shown @ py '' from '' @ pdf_url)];
          failed = (\<lambda>e. (None, out @ [(ERROR, py ''Error downloading '' @ shown @ py '': '' @ e)]))
      in case session_get E pdf_url of
           Inl e \<Rightarrow> failed e
         | Inr r \<Rightarrow>
             if status_code r = 200 then
               if validate_pdf_content (content r) then
                 (case doc_name of
                    JStr n \<Rightarrow>
                      (let safe_name = clean_filename (rt E) n 50;
                           pdf_filename = py_str (rt E) bdns @ py ''_'' @ safe_name @ py ''.pdf'';
                           pdf_path = path_join (rt E) download_dir pdf_filename
                       in case write_bytes E pdf_path (content r) of
                            Some e \<Rightarrow> failed e
                          | None \<Rightarrow>
                              (let out1 = out @ [(INFO, py ''Saved PDF to: '' @ pdf_path)]
                               in case pdf_pages E (content r) of
                                    Inl e \<Rightarrow>
                                      (None, out1 @ [(ERROR, py ''Error extracting text from ''
                                                       @ shown @ py '': '' @ e)])
                                  | Inr pages \<Rightarrow>
                                      (let extracted = page_text pages
                                       in if py_strip (rt E) extracted \<noteq> [] then
                                            (Some \<lparr>filename = doc_name, text_key = extracted,
                                                   path = pdf_path\<rparr>,
                                             out1 @ [(INFO, py ''Extracted ''
                                                       @ int_str (int (length extracted))
                                                       @ py '' characters from '' @ shown)])
                                          else
                                            (None, out1 @ [(WARNING,
                                                       py ''No text extracted from '' @ shown)]))))
                  | _ \<Rightarrow> failed (re_type_error doc_name))
               else
                 (None, out @ [(WARNING, py ''Downloaded content is not a valid PDF: '' @ shown)])
             else
               (None, out @ [(WARNING, py ''Failed to download '' @ shown @ py '': HTTP ''
                                @ int_str (status_code r))]))"

fun download_loop ::
  "env \<Rightarrow> json \<Rightarrow> pystr \<Rightarrow> pdf_ref list \<Rightarrow> pdf_text list \<Rightarrow> int \<Rightarrow> SubsidyState
     \<Rightarrow> pdf_text list \<times> int \<times> SubsidyState" where
  "download_loop E bdns download_dir [] texts successful_downloads s =
     (texts, successful_downloads, s)"
| "download_loop E bdns download_dir (pdf_info # rest) texts successful_downloads s =
     (case download_one E bdns download_dir pdf_info of
        (Some t, out) \<Rightarrow>
          download_loop E bdns download_dir rest (texts @ [t]) (successful_downloads + 1)
            (s\<lparr>console := console s @ out\<rparr>)
      | (None, out) \<Rightarrow>
          download_loop E bdns download_dir rest texts successful_downloads
            (s\<lparr>console := console s @ out\<rparr>))"

definition download_pdfs_body :: "env \<Rightarrow> SubsidyState \<Rightarrow> outcome" where
  "download_pdfs_body E s =
     (let refs = pdf_urls s;
          bdns = bdns_code s
      in if refs = [] then
           Inr (add_log (py ''No PDFs to download'')
                  ((logger_info (py ''No PDFs to download'') s)
                     \<lparr>pdf_texts := [], pdf_count := 0\<rparr>))
         else
           (case create_download_directory E of
              Inl e \<Rightarrow> Inl (e, s)
            | Inr download_dir \<Rightarrow>
                (case download_loop E bdns download_dir refs [] 0 s of
                   (texts, successful_downloads, s1) \<Rightarrow>
                     Inr (add_log
                            (py ''Downloaded and processed '' @ int_str successful_downloads
                               @ py '' PDFs'')
                            (s1\<lparr>pdf_texts := texts, pdf_count := successful_downloads\<rparr>)))))"

definition download_pdfs_node :: "env \<Rightarrow> SubsidyState \<Rightarrow> SubsidyState" where
  "download_pdfs_node E s = catch ''Error in download process: '' (download_pdfs_body E s)"

subsection \<open>analyze_subsidy_node\<close>

text \<open>
  The two prompt templates are constants of \<open>prompts.py\<close>; a prompt is represented by
  the template chosen and the values formatted into it. \<open>llm.invoke\<close> returns the
  response text and the token usage list, or raises.
\<close>

definition combine_pdf_texts :: "pyrt \<Rightarrow> pdf_text list \<Rightarrow> pystr" where
  "combine_pdf_texts U texts =
     (if texts \<noteq> [] then
        py_join [10, 10]
          (map (\<lambda>pdf. py ''=== DOCUMENT: '' @ py_str U (filename pdf) @ py '' ==='' @ [10]
                        @ text_key pdf) texts)
      else [])"

definition build_prompt :: "pyrt \<Rightarrow> pydict \<Rightarrow> pdf_text list \<Rightarrow> prompt" where
  "build_prompt U data texts =
     (let combined_pdf_text = combine_pdf_texts U texts
      in if combined_pdf_text \<noteq> [] then ANALYSIS_PROMPT_WITH_PDF data combined_pdf_text
         else ANALYSIS_PROMPT_WITHOUT_PDF data)"

definition usage_json :: "token_usage_entry \<Rightarrow> json" where
  "usage_json u =
     JObj [(py ''model_name'', JStr (usage_model_name u)),
           (py ''input_tokens'', JNum (input_tokens u)),
           (py ''output_tokens'', JNum (output_tokens u))]"

definition build_metadata ::
  "env \<Rightarrow> SubsidyState \<Rightarrow> pdf_text list \<Rightarrow> token_usage_entry list \<Rightarrow> pydict" where
  "build_metadata E s texts token_usage =
     [(py ''analysis_date'', JStr (now_isoformat E)),
      (py ''subsidy_code'', bdns_code s),
      (py ''used_pdf'', JBool (texts \<noteq> [])),
      (py ''pdf_count'', JNum (int (length texts))),
      (py ''model_used'', JStr (model_name E)),
      (py ''version'', JStr (py ''3.0-langgraph'')),
      (py ''token_usage'', (case token_usage of [] \<Rightarrow> JNull | u # _ \<Rightarrow> usage_json u))]"

text \<open>
  What is done with the value \<open>analysis_json\<close> that \<open>extract_json_from_text\<close> returned:
  \<open>if analysis_json:\<close> is false for \<open>None\<close> and for the empty dict alike.
\<close>

definition store_parsed :: "env \<Rightarrow> pydict option \<Rightarrow> pystr \<Rightarrow> SubsidyState \<Rightarrow> SubsidyState" where
  "store_parsed E analysis_json analysis_text s =
     (case analysis_json of
        Some (kv # kvs) \<Rightarrow>
          (case validate_result (kv # kvs) of
             Some r \<Rightarrow>
               (logger_info (py ''Successfully parsed analysis into structured format'') s)
                 \<lparr>analysis_result := Some r\<rparr>
           | None \<Rightarrow>
               (logger_warning
                  (py ''Could not parse into structured format: ''
                     @ validation_text E (kv # kvs)) s)
                 \<lparr>raw_analysis := Some (kv # kvs)\<rparr>)
      | _ \<Rightarrow>
          (logger_error (py ''Could not extract JSON from LLM response'') s)
            \<lparr>error := Some (py ''Could not extract valid JSON from LLM response''),
             raw_analysis := Some [(py ''raw_response'', JStr analysis_text)]\<rparr>)"

text \<open>
  The extraction followed by the above. An exception that leaves
  \<open>extract_json_from_text\<close> is raised in the body of the node, with the state as it is.
\<close>

definition store_analysis :: "env \<Rightarrow> pystr \<Rightarrow> SubsidyState \<Rightarrow> outcome" where
  "store_analysis E analysis_text s =
     (case extract_json_from_text (json_loads E) analysis_text of
        Inl e \<Rightarrow> Inl (e, s)
      | Inr analysis_json \<Rightarrow> Inr (store_parsed E analysis_json analysis_text s))"

text \<open>
  \<open>if state.get("analysis_result"): ... elif state.get("raw_analysis"): ...\<close>: a model
  instance is always true, a dict is true when it is not empty.
\<close>

definition attach_metadata :: "pydict \<Rightarrow> SubsidyState \<Rightarrow> SubsidyState" where
  "attach_metadata meta s =
     (case analysis_result s of
        Some r \<Rightarrow> s\<lparr>analysis_result := Some (r\<lparr>metadata := meta\<rparr>)\<rparr>
      | None \<Rightarrow>
          (case raw_analysis s of
             Some (kv # kvs) \<Rightarrow>
               s\<lparr>raw_analysis := Some (dict_set (kv # kvs) (py ''metadata'') (JObj meta))\<rparr>
           | _ \<Rightarrow> s))"

definition analyze_subsidy_body :: "env \<Rightarrow> SubsidyState \<Rightarrow> outcome" where
  "analyze_subsidy_body E s =
     (let data = subsidy_data s;
          texts = pdf_texts s;
          prompt = build_prompt (rt E) data texts;
          s1 = logger_info (py ''Calling LLM for analysis...'') s
      in case llm_invoke E prompt of
           Inl e \<Rightarrow> Inl (e, s1)
         | Inr (analysis_text, token_usage) \<Rightarrow>
             (let s2 = (case token_usage of
                          [] \<Rightarrow> s1
                        | usage # _ \<Rightarrow>
                            logger_info
                              (py ''Token usage - Model: '' @ usage_model_name usage
                                 @ py '', Input: '' @ int_str (input_tokens usage)
                                 @ py '', Output: '' @ int_str (output_tokens usage)) s1)
              in case store_analysis E analysis_text s2 of
                   Inl x \<Rightarrow> Inl x
                 | Inr s3 \<Rightarrow>
                     (let meta = build_metadata E s3 texts token_usage;
                          s4 = attach_metadata meta s3
                      in Inr (add_log (py ''LLM analysis completed'') s4))))"

definition analyze_subsidy_node :: "env \<Rightarrow> SubsidyState \<Rightarrow> SubsidyState" where
  "analyze_subsidy_node E s = catch ''Error in LLM analysis: '' (analyze_subsidy_body E s)"

subsection \<open>save_results_node\<close>

definition save_results_body :: "env \<Rightarrow> SubsidyState \<Rightarrow> outcome" where
  "save_results_body E s =
     (let result = analysis_result s;
          raw = raw_analysis s;
          bdns = bdns_code s;
          n = pdf_count s
      in if \<not> (result \<noteq> None \<or> (case raw of Some d \<Rightarrow> d \<noteq> [] | None \<Rightarrow> False))
              \<or> \<not> truthy bdns then
           Inr (logger_warning (py ''No analysis result or BDNS code to save'') s)
         else
           (case create_download_directory E of
              Inl e \<Rightarrow> Inl (e, s)
            | Inr download_dir \<Rightarrow>
                (let timestamp = now_strftime E;
                     pdf_indicator =
                       (if n > 0 then py ''_with_'' @ int_str n @ py ''_PDFs''
                        else py ''_JSON_only'');
                     file = py ''LangGraph_Analysis_'' @ py_str (rt E) bdns @ py ''_''
                              @ timestamp @ pdf_indicator @ py ''.json'';
                     filepath = path_join (rt E) download_dir file;
                     to_save =
                       (case result of
                          Some r \<Rightarrow> Structured r
                        | None \<Rightarrow> Raw (case raw of Some d \<Rightarrow> d | None \<Rightarrow> []))
                 in case dump_json E filepath to_save of
                      Some e \<Rightarrow> Inl (e, s)
                    | None \<Rightarrow>
                        Inr (add_log (py ''Results saved to '' @ filepath)
                               (logger_info (py ''Analysis saved to: '' @ filepath) s)))))"

definition save_results_node :: "env \<Rightarrow> SubsidyState \<Rightarrow> SubsidyState" where
  "save_results_node E s = catch ''Error saving results: '' (save_results_body E s)"

section \<open>graph.py\<close>

text \<open>
  A \<open>StateGraph\<close> is what \<open>add_node\<close>, \<open>set_entry_point\<close> and \<open>add_edge\<close> have put into
  it. \<open>invoke\<close> starts at the entry point, applies the function of the current node to
  the state and follows the edge that leaves the node, until the edge leads to \<open>END\<close>.
  It gives up with an error when a node is unknown, when a node has no edge or more
  than one (no such graph is built here), and after \<open>recursion_limit\<close> steps. Besides
  the final state it reports the nodes it ran, in order, each with the state it
  returned.
\<close>

record StateGraph =
  nodes :: "(string \<times> (SubsidyState \<Rightarrow> SubsidyState)) list"
  entry_point :: "string option"
  edges :: "(string \<times> string) list"

definition END :: string where
  "END = ''__end__''"

definition new_graph :: StateGraph where
  "new_graph = \<lparr>nodes = [], entry_point = None, edges = []\<rparr>"

definition add_node :: "string \<Rightarrow> (SubsidyState \<Rightarrow> SubsidyState) \<Rightarrow> StateGraph \<Rightarrow> StateGraph" where
  "add_node n f g = g\<lparr>nodes := nodes g @ [(n, f)]\<rparr>"

definition set_entry_point :: "string \<Rightarrow> StateGraph \<Rightarrow> StateGraph" where
  "set_entry_point n g = g\<lparr>entry_point := Some n\<rparr>"

definition add_edge :: "string \<Rightarrow> string \<Rightarrow> StateGraph \<Rightarrow> StateGraph" where
  "add_edge a b g = g\<lparr>edges := edges g @ [(a, b)]\<rparr>"

type_synonym trace = "(string \<times> SubsidyState) list"

fun run_from ::
  "StateGraph \<Rightarrow> nat \<Rightarrow> string \<Rightarrow> SubsidyState \<Rightarrow> trace \<Rightarrow> (exn \<times> trace) + (SubsidyState \<times> trace)"
  where
  "run_from g 0 n s tr = Inl (py ''Recursion limit reached'', tr)"
| "run_from g (Suc fuel) n s tr =
     (if n = END then Inr (s, tr)
      else
        (case map_of (nodes g) n of
           None \<Rightarrow> Inl (py ''unknown node'', tr)
         | Some f \<Rightarrow>
             (case filter (\<lambda>e. fst e = n) (edges g) of
                [e] \<Rightarrow> run_from g fuel (snd e) (f s) (tr @ [(n, f s)])
              | _ \<Rightarrow> Inl (py ''unsupported graph'', tr @ [(n, f s)]))))"

definition recursion_limit :: nat where
  "recursion_limit = 25"

definition invoke :: "StateGraph \<Rightarrow> SubsidyState \<Rightarrow> (exn \<times> trace) + (SubsidyState \<times> trace)" where
  "invoke g s =
     (case entry_point g of
        None \<Rightarrow> Inl (py ''no entry point'', [])
      | Some n \<Rightarrow> run_from g recursion_limit n s [])"

text \<open>\<open>SubsidyAnalyzerGraph._build_workflow\<close>; the analyze node is the closure over the model.\<close>

definition build_workflow :: "env \<Rightarrow> StateGraph" where
  "build_workflow E =
     (add_edge ''save_results'' END
     (add_edge ''analyze_subsidy'' ''save_results''
     (add_edge ''download_pdfs'' ''analyze_subsidy''
     (add_edge ''find_pdf_urls'' ''download_pdfs''
     (add_edge ''fetch_subsidy_info'' ''find_pdf_urls''
     (add_edge ''extract_bdns'' ''fetch_subsidy_info''
     (set_entry_point ''extract_bdns''
     (add_node ''save_results'' (save_results_node E)
     (add_node ''analyze_subsidy'' (analyze_subsidy_node E)
     (add_node ''download_pdfs'' (download_pdfs_node E)
     (add_node ''find_pdf_urls'' (find_pdf_urls_node E)
     (add_node ''fetch_subsidy_info'' (fetch_subsidy_info_node E)
     (add_node ''extract_bdns'' (extract_bdns_node E)
      new_graph)))))))))))))"

text \<open>
  The dict the three entry points return. The second component of their value here is
  not returned by the code: it is the list of the nodes that were run. (What the entry
  points write through the logger after the run is left out.)
\<close>

record run_result =
  success :: bool
  res_analysis_result :: "SubsidyAnalysisResult option"
  res_raw_analysis :: "pydict option"
  res_processing_time :: real
  res_pdf_count :: int
  res_logs :: "pystr list"
  res_error :: "pystr option"

definition initial_state :: "json \<Rightarrow> json \<Rightarrow> pydict \<Rightarrow> SubsidyState" where
  "initial_state code src data =
     \<lparr>bdns_code = code, source_url = src, subsidy_data = data, pdf_urls = [], pdf_texts = [],
      pdf_count = 0, analysis_result = None, raw_analysis = None, error = None, logs = [],
      processing_time = None, console = []\<rparr>"

definition rejected :: "pystr \<Rightarrow> run_result" where
  "rejected msg =
     \<lparr>success = False, res_analysis_result = None, res_raw_analysis = None,
      res_processing_time = 0, res_pdf_count = 0, res_logs = [], res_error = Some msg\<rparr>"

text \<open>
  The \<open>try: final_state = self.workflow.invoke(...) ... except Exception as e: ...\<close> that
  \<open>analyze_from_bdns\<close> and \<open>analyze_from_data\<close> share. \<open>not bool(error)\<close> is true for
  \<open>None\<close> and for the empty string.
\<close>

definition run_workflow :: "env \<Rightarrow> SubsidyState \<Rightarrow> run_result \<times> trace" where
  "run_workflow E initial =
     (case invoke (build_workflow E) initial of
        Inr (final_state, tr) \<Rightarrow>
          (\<lparr>success = (case error final_state of None \<Rightarrow> True | Some e \<Rightarrow> e = []),
            res_analysis_result = analysis_result final_state,
            res_raw_analysis = raw_analysis final_state,
            res_processing_time = elapsed E,
            res_pdf_count = pdf_count final_state,
            res_logs = logs final_state,
            res_error = error final_state\<rparr>, tr)
      | Inl (e, tr) \<Rightarrow>
          (\<lparr>success = False, res_analysis_result = None, res_raw_analysis = None,
            res_processing_time = elapsed E, res_pdf_count = 0,
            res_logs = [py ''Workflow failed: '' @ e], res_error = Some e\<rparr>, tr))"

definition analyze_from_bdns :: "env \<Rightarrow> pystr \<Rightarrow> run_result \<times> trace" where
  "analyze_from_bdns E code =
     run_workflow E
       (initial_state (JStr code)
          (JStr (py ''https://www.subvenciones.gob.es/bdnstrans/GE/es/convocatorias/'' @ code))
          [])"

definition analyze_from_data :: "env \<Rightarrow> pydict \<Rightarrow> run_result \<times> trace" where
  "analyze_from_data E data =
     (let code = py_or (dict_get data (py ''codigo_bdns'')) (dict_get data (py ''bdns_code''));
          src = dict_get data (py ''source_url'')
      in if \<not> truthy code \<and> \<not> truthy src then
           (rejected (py ''Either bdns_code or source_url must be provided in subsidy_data''), [])
         else run_workflow E (initial_state (py_or code (JStr [])) src data))"

definition analyze_from_url :: "env \<Rightarrow> pystr \<Rightarrow> run_result \<times> trace" where
  "analyze_from_url E u =
     (case extract_bdns_from_url (rt E) u of
        None \<Rightarrow> (rejected (py ''Could not extract BDNS code from URL: '' @ u), [])
      | Some code \<Rightarrow> analyze_from_bdns E code)"

section \<open>Sample collaborators\<close>

text \<open>
  A runtime that knows ASCII only and an environment without network, in which the
  model call fails; used to run the definitions on concrete inputs.
\<close>

definition ascii_rt :: pyrt where
  "ascii_rt =
     \<lparr>uni_alnum = (\<lambda>c. False), uni_space = (\<lambda>c. False), uni_decimal = (\<lambda>c. False),
      uni_lower = (\<lambda>s. s), container_repr = (\<lambda>v. py ''...''),
      path_join = (\<lambda>d f. d @ [47] @ f)\<rparr>"

definition offline_env :: env where
  "offline_env =
     \<lparr>rt = ascii_rt,
      session_get = (\<lambda>u. Inl (py ''offline'')),
      mkdir = (\<lambda>d. None),
      write_bytes = (\<lambda>p b. None),
      pdf_pages = (\<lambda>b. Inr []),
      llm_invoke = (\<lambda>p. Inl (py ''no model'')),
      model_name = py ''gpt-4o-mini'',
      json_loads = (\<lambda>t. Inr None),
      now_isoformat = py ''2025-01-01T00:00:00'',
      now_strftime = py ''20250101_000000'',
      dump_json = (\<lambda>p d. None),
      validation_text = (\<lambda>d. py ''validation error''),
      elapsed = 1\<rparr>"

text \<open>The six nodes applied one after the other, each paired with its name.\<close>

definition fixed_order_trace :: "env \<Rightarrow> SubsidyState \<Rightarrow> trace" where
  "fixed_order_trace E s =
     (let s1 = extract_bdns_node E s;
          s2 = fetch_subsidy_info_node E s1;
          s3 = find_pdf_urls_node E s2;
          s4 = download_pdfs_node E s3;
          s5 = analyze_subsidy_node E s4;
          s6 = save_results_node E s5
      in [(''extract_bdns'', s1), (''fetch_subsidy_info'', s2), (''find_pdf_urls'', s3),
          (''download_pdfs'', s4), (''analyze_subsidy'', s5), (''save_results'', s6)])"

text \<open>An environment whose every request is answered with status 404.\<close>

definition not_found_env :: env where
  "not_found_env =
     offline_env\<lparr>session_get :=
       (\<lambda>u. Inr \<lparr>status_code = 404, content = [], resp_text = [], json_body = Inl []\<rparr>)\<rparr>"


text \<open>
  A response of the model as in Scenario D, the object \<open>json.loads\<close> makes of its
  brace-delimited part, and an environment in which the model gives that response.
\<close>

definition sample_span :: pystr where
  \<open>sample_span = py (''{"identificacion": {"organismo_emisor": "A", "titulo_convocatoria": "B", ''
       @ ''"base_reguladora": "C"}, "detalles": {"beneficiarios": ["D"], "finalidad_ayuda": "E"}, ''
       @ ''"condiciones_economicas": {"presupuesto_total": "F", "cuantia_por_solicitud": "G"}, ''
       @ ''"plazos_procedimiento": {"plazo_presentacion": "H", "plazo_resolucion": "I", ''
       @ ''"medio_presentacion": "J"}}'')\<close>

definition sample_response :: pystr where
  "sample_response = py ''here is the result: '' @ sample_span @ py '' thanks''"

definition sample_object :: pydict where
  "sample_object =
     [(py ''identificacion'',
         JObj [(py ''organismo_emisor'', JStr (py ''A'')),
               (py ''titulo_convocatoria'', JStr (py ''B'')),
               (py ''base_reguladora'', JStr (py ''C''))]),
      (py ''detalles'',
         JObj [(py ''beneficiarios'', JArr [JStr (py ''D'')]),
               (py ''finalidad_ayuda'', JStr (py ''E''))]),
      (py ''condiciones_economicas'',
         JObj [(py ''presupuesto_total'', JStr (py ''F'')),
               (py ''cuantia_por_solicitud'', JStr (py ''G''))]),
      (py ''plazos_procedimiento'',
         JObj [(py ''plazo_presentacion'', JStr (py ''H'')),
               (py ''plazo_resolucion'', JStr (py ''I'')),
               (py ''medio_presentacion'', JStr (py ''J''))])]"

definition sample_env :: env where
  "sample_env =
     offline_env\<lparr>llm_invoke := (\<lambda>p. Inr (sample_response, [])),
                 json_loads := (\<lambda>t. if t = sample_span then Inr (Some sample_object) else Inr None)\<rparr>"

text \<open>An environment in which the model answers with the empty object.\<close>

definition empty_object_env :: env where
  "empty_object_env =
     offline_env\<lparr>llm_invoke := (\<lambda>p. Inr (py ''{}'', [])),
                 json_loads := (\<lambda>t. if t = py ''{}'' then Inr (Some []) else Inr None)\<rparr>"

text \<open>The names of the six stages in their order, and "\<open>error\<close> holds a non-empty text".\<close>

definition stage_names :: "string list" where
  "stage_names = [''extract_bdns'', ''fetch_subsidy_info'', ''find_pdf_urls'', ''download_pdfs'',
                  ''analyze_subsidy'', ''save_results'']"

definition error_set :: "SubsidyState \<Rightarrow> bool" where
  "error_set s = (case error s of Some e \<Rightarrow> e \<noteq> [] | None \<Rightarrow> False)"

text \<open>
  The classification of a document descriptor in the words of the specification,
  written on the fields of the descriptor and not on what the node computes. The
  display name is the first of \<open>nombreFic\<close>, \<open>nombre\<close>, \<open>name\<close> that holds a true value,
  else \<open>Unknown\<close>; the declared type is the first of \<open>tipo\<close>, \<open>type\<close> that holds a true
  value, else the empty string. A descriptor is a PDF candidate when its declared type
  is the token \<open>PDF\<close>, or its display name contains \<open>pdf\<close> whatever the case of its
  letters; and its id field holds a true value. Its reference carries the URL of the
  document retrieval path, the display name and the id.
\<close>

fun first_true :: "json list \<Rightarrow> json \<Rightarrow> json" where
  "first_true [] fallback = fallback"
| "first_true (v # vs) fallback = (if truthy v then v else first_true vs fallback)"

definition descriptor_name :: "pydict \<Rightarrow> json" where
  "descriptor_name d =
     first_true [dict_get d (py ''nombreFic''), dict_get d (py ''nombre''), dict_get d (py ''name'')]
       (JStr (py ''Unknown''))"

definition descriptor_type :: "pydict \<Rightarrow> json" where
  "descriptor_type d = first_true [dict_get d (py ''tipo''), dict_get d (py ''type'')] (JStr [])"

definition pdf_candidate :: "pyrt \<Rightarrow> pydict \<Rightarrow> bool" where
  "pdf_candidate U d =
     ((descriptor_type d = JStr (py ''PDF'')
        \<or> (case descriptor_name d of JStr n \<Rightarrow> py_in (py ''pdf'') (py_lower U n) | _ \<Rightarrow> False))
      \<and> truthy (dict_get d (py ''id'')))"

definition ref_of :: "env \<Rightarrow> json \<Rightarrow> pydict \<Rightarrow> pdf_ref" where
  "ref_of E bdns d =
     \<lparr>url = py ''https://www.subvenciones.gob.es/bdnstrans/GE/es/convocatoria/''
              @ py_str (rt E) bdns @ py ''/document/'' @ py_str (rt E) (dict_get d (py ''id'')),
      name = descriptor_name d,
      id_key = dict_get d (py ''id'')\<rparr>"

text \<open>
  An entry of the collection that the locator can read: an object whose display name
  is a string, or whose declared type is \<open>PDF\<close> (then the name is not looked at).
\<close>

definition readable :: "json \<Rightarrow> bool" where
  "readable doc =
     (case doc of
        JObj d \<Rightarrow>
          descriptor_type d = JStr (py ''PDF'')
          \<or> (case descriptor_name d of JStr n \<Rightarrow> True | _ \<Rightarrow> False)
      | _ \<Rightarrow> False)"

text \<open>The state of Scenario B with the number 0 as id of the document.\<close>

definition zero_id_state :: SubsidyState where
  "zero_id_state =
     initial_state (JStr (py ''845133'')) JNull
       [(py ''documentos'',
           JArr [JObj [(py ''tipo'', JStr (py ''PDF'')),
                       (py ''nombreFic'', JStr (py ''Bases.pdf'')),
                       (py ''id'', JNum 0)]])]"

text \<open>
  An environment in which the registry lists the document of Scenario B and every
  other request is answered with a one-page PDF.
\<close>

definition registry_env :: env where
  "registry_env =
     offline_env\<lparr>session_get :=
                   (\<lambda>u. if u = py ''https://www.subvenciones.gob.es/bdnstrans/api/convocatorias?numConv=845133&vpd=GE''
                        then Inr \<lparr>status_code = 200, content = [], resp_text = [],
                                  json_body = Inr [(py ''documentos'',
                                     JArr [JObj [(py ''tipo'', JStr (py ''PDF'')),
                                                 (py ''nombreFic'', JStr (py ''Bases.pdf'')),
                                                 (py ''id'', JStr (py ''7''))]])]\<rparr>
                        else Inr \<lparr>status_code = 200, content = ''%PDF-1.4 ...'', resp_text = [],
                                  json_body = Inl []\<rparr>),
                 pdf_pages := (\<lambda>b. Inr [py ''Bases reguladoras''])\<rparr>"

text \<open>
  An environment in which one address cannot be reached and every other request is
  answered with a one-page PDF, and a state with a reference to each.
\<close>

definition pdf_env :: env where
  "pdf_env =
     offline_env\<lparr>session_get :=
                   (\<lambda>u. if u = py ''https://x.es/broken'' then Inl (py ''timeout'')
                        else Inr \<lparr>status_code = 200, content = ''%PDF-1.4 ...'', resp_text = [],
                                  json_body = Inl []\<rparr>),
                 pdf_pages := (\<lambda>b. Inr [py ''Bases reguladoras''])\<rparr>"

definition two_refs :: SubsidyState where
  "two_refs =
     (initial_state (JStr (py ''845133'')) JNull [])
       \<lparr>pdf_urls := [\<lparr>url = py ''https://x.es/broken'', name = JStr (py ''a.pdf''),
                       id_key = JStr (py ''1'')\<rparr>,
                     \<lparr>url = py ''https://x.es/doc/2'', name = JStr (py ''b.pdf''),
                       id_key = JStr (py ''2'')\<rparr>]\<rparr>"

text \<open>The state of Scenario B.\<close>

definition scenario_b_state :: SubsidyState where
  "scenario_b_state =
     initial_state (JStr (py ''845133'')) JNull
       [(py ''documentos'',
           JArr [JObj [(py ''tipo'', JStr (py ''PDF'')),
                       (py ''nombreFic'', JStr (py ''Bases.pdf'')),
                       (py ''id'', JStr (py ''7''))]])]"

section \<open>The filename sanitizer\<close>

lemma sub_runs_set: "c \<in> set (sub_runs U s) \<Longrightarrow> c = 95 \<or> (c \<in> set s \<and> \<not> is_sep U c)"
proof (induction U s rule: sub_runs.induct)
  case (1 U)
  then show ?case by simp
next
  case (2 U c cs)
  then show ?case by (auto split: if_splits dest: set_dropWhileD)
qed

lemma sub_runs_word: "\<forall>c \<in> set w. \<not> is_sep U c \<Longrightarrow> sub_runs U (w @ t) = w @ sub_runs U t"
  by (induction w) auto

lemma sub_runs_run:
  assumes "r \<noteq> []" "\<forall>c \<in> set r. is_sep U c" "t = [] \<or> \<not> is_sep U (hd t)"
  shows "sub_runs U (r @ t) = 95 # sub_runs U t"
proof -
  obtain a r' where r: "r = a # r'" using assms(1) by (cases r) auto
  have "dropWhile (is_sep U) (r' @ t) = dropWhile (is_sep U) t"
    using assms(2) r by (simp add: dropWhile_append2)
  also have "\<dots> = t" using assms(3) by (simp add: dropWhile_eq_self_iff)
  finally show ?thesis using assms(2) r by simp
qed

lemma clean_filename_words:
  assumes "\<forall>c \<in> set w1. re_word U c \<and> \<not> is_sep U c"
      and "\<forall>c \<in> set w2. re_word U c \<and> \<not> is_sep U c"
      and "\<forall>c \<in> set r. \<not> re_word U c" and "\<exists>c \<in> set r. is_sep U c"
  shows "clean_filename U (w1 @ r @ w2) n = take n (w1 @ 95 # w2)"
proof -
  let ?keep = "\<lambda>c. re_word U c \<or> re_space U c \<or> c = 45"
  have k1: "filter ?keep w1 = w1" using assms(1) by (simp add: filter_id_conv)
  have k2: "filter ?keep w2 = w2" using assms(2) by (simp add: filter_id_conv)
  have kr: "\<forall>c \<in> set (filter ?keep r). is_sep U c" using assms(3) by (auto simp: is_sep_def)
  have ne: "filter ?keep r \<noteq> []" using assms(4) by (auto simp: is_sep_def filter_empty_conv)
  have w2: "w2 = [] \<or> \<not> is_sep U (hd w2)" using assms(2) by (cases w2) auto
  have "sub_runs U (w1 @ filter ?keep r @ w2) = w1 @ sub_runs U (filter ?keep r @ w2)"
    using assms(1) by (simp add: sub_runs_word)
  also have "\<dots> = w1 @ 95 # sub_runs U w2"
    using sub_runs_run[OF ne kr w2] by simp
  also have "sub_runs U w2 = w2" using sub_runs_word[of w2 U "[]"] assms(2) by simp
  finally show ?thesis by (simp add: clean_filename_def k1 k2)
qed

lemma clean_filename_chars: "c \<in> set (clean_filename U s n) \<Longrightarrow> re_word U c"
  by (auto simp: clean_filename_def re_word_def is_sep_def dest!: in_set_takeD sub_runs_set)

lemma clean_filename_example:
  "\<not> uni_alnum U 8212 \<Longrightarrow> \<not> uni_space U 8212 \<Longrightarrow>
   clean_filename U (py ''Orden Ministerial (2024) '' @ [8212] @ py '' Bases!'') 50
     = py ''Orden_Ministerial_2024_Bases''"
  by (simp add: clean_filename_def py_def re_word_def re_space_def ascii_alpha_def
      ascii_digit_def ascii_space_def is_sep_def)

text \<open>
  C9. For the input \<open>"Orden Ministerial (2024) \<emdash> Bases!"\<close> (the dash is U+2014, which
  the Unicode tables class neither as alphanumeric nor as whitespace) the sanitizer
  returns \<open>"Orden_Ministerial_2024_Bases"\<close>: letters, digits and underscores only, at
  most 50 characters, no underscore at either end. In general the result has at most
  50 characters, every character of it is a word character (whatever is not a word
  character, whitespace or a hyphen is dropped, and whitespace and hyphens are
  replaced), and two words with a stretch between them that holds no word character
  but at least one whitespace or hyphen come out joined by a single underscore, cut
  to 50 characters.
\<close>

theorem clean_filename_sanitizes:
  "(\<not> uni_alnum U 8212 \<and> \<not> uni_space U 8212 \<longrightarrow>
      (let out = clean_filename U (py ''Orden Ministerial (2024) '' @ [8212] @ py '' Bases!'') 50
       in out = py ''Orden_Ministerial_2024_Bases''
          \<and> (\<forall>c \<in> set out. ascii_alpha c \<or> ascii_digit c \<or> c = 95)
          \<and> length out \<le> 50 \<and> hd out \<noteq> 95 \<and> last out \<noteq> 95))
   \<and> length (clean_filename U s 50) \<le> 50
   \<and> (\<forall>c \<in> set (clean_filename U s 50). re_word U c)
   \<and> ((\<forall>c \<in> set w1. re_word U c \<and> \<not> is_sep U c) \<and> (\<forall>c \<in> set w2. re_word U c \<and> \<not> is_sep U c)
        \<and> (\<forall>c \<in> set r. \<not> re_word U c) \<and> (\<exists>c \<in> set r. is_sep U c)
      \<longrightarrow> clean_filename U (w1 @ r @ w2) 50 = take 50 (w1 @ 95 # w2))"
proof (intro conjI impI)
  assume "\<not> uni_alnum U 8212 \<and> \<not> uni_space U 8212"
  then have "clean_filename U (py ''Orden Ministerial (2024) '' @ [8212] @ py '' Bases!'') 50
               = py ''Orden_Ministerial_2024_Bases''"
    using clean_filename_example [of U] by blast
  then show "let out = clean_filename U (py ''Orden Ministerial (2024) '' @ [8212] @ py '' Bases!'') 50
       in out = py ''Orden_Ministerial_2024_Bases''
          \<and> (\<forall>c \<in> set out. ascii_alpha c \<or> ascii_digit c \<or> c = 95)
          \<and> length out \<le> 50 \<and> hd out \<noteq> 95 \<and> last out \<noteq> 95"
    by (simp add: py_def ascii_alpha_def ascii_digit_def)
next
  show "length (clean_filename U s 50) \<le> 50" by (simp add: clean_filename_def)
next
  show "\<forall>c \<in> set (clean_filename U s 50). re_word U c" by (simp add: clean_filename_chars)
next
  assume "(\<forall>c \<in> set w1. re_word U c \<and> \<not> is_sep U c) \<and> (\<forall>c \<in> set w2. re_word U c \<and> \<not> is_sep U c)
        \<and> (\<forall>c \<in> set r. \<not> re_word U c) \<and> (\<exists>c \<in> set r. is_sep U c)"
  then show "clean_filename U (w1 @ r @ w2) 50 = take 50 (w1 @ 95 # w2)"
    by (intro clean_filename_words) simp_all
qed

theorem clean_filename_sanitizes_witness:
  "clean_filename ascii_rt (py ''Orden Ministerial (2024) '' @ [8212] @ py '' Bases!'') 50
     = py ''Orden_Ministerial_2024_Bases''
   \<and> clean_filename ascii_rt (py ''a'' @ py '' - ('' @ py ''b'') 50 = py ''a_b''"
proof -
  note t = clean_filename_sanitizes
    [where U = ascii_rt and ?w1.0 = "py ''a''" and r = "py '' - (''" and ?w2.0 = "py ''b''"
       and s = "[]"]
  have h1: "\<not> uni_alnum ascii_rt 8212 \<and> \<not> uni_space ascii_rt 8212"
    by (simp add: ascii_rt_def)
  have h2: "(\<forall>c \<in> set (py ''a''). re_word ascii_rt c \<and> \<not> is_sep ascii_rt c)
      \<and> (\<forall>c \<in> set (py ''b''). re_word ascii_rt c \<and> \<not> is_sep ascii_rt c)
      \<and> (\<forall>c \<in> set (py '' - (''). \<not> re_word ascii_rt c)
      \<and> (\<exists>c \<in> set (py '' - (''). is_sep ascii_rt c)"
    by (simp add: ascii_rt_def py_def re_word_def re_space_def is_sep_def ascii_alpha_def
        ascii_digit_def ascii_space_def)
  note a = t [THEN conjunct1, rule_format, OF h1, unfolded Let_def, THEN conjunct1]
  note b = t [THEN conjunct2, THEN conjunct2, THEN conjunct2, rule_format, OF h2]
  have "take 50 (py ''a'' @ 95 # py ''b'') = py ''a_b''" by (simp add: py_def)
  with a b show ?thesis by simp
qed

section \<open>The order of the stages\<close>

lemma invoke_build_workflow:
  "invoke (build_workflow E) s = Inr (snd (last (fixed_order_trace E s)), fixed_order_trace E s)"
  by (simp add: invoke_def build_workflow_def add_node_def add_edge_def set_entry_point_def
      new_graph_def recursion_limit_def END_def fixed_order_trace_def Let_def eval_nat_numeral)

text \<open>
  C1. Whatever the initial state and whatever the collaborators answer, invoking the
  compiled workflow ends normally, and the nodes it ran are the six stages, each
  once, in the order extract_bdns, fetch_subsidy_info, find_pdf_urls, download_pdfs,
  analyze_subsidy, save_results, every stage applied to the state the stage before it
  returned. Nothing in this depends on the \<open>error\<close> field.
\<close>

theorem every_stage_runs_once:
  "invoke (build_workflow E) s
     = Inr (save_results_node E (analyze_subsidy_node E (download_pdfs_node E
              (find_pdf_urls_node E (fetch_subsidy_info_node E (extract_bdns_node E s))))),
            fixed_order_trace E s)
   \<and> map fst (fixed_order_trace E s)
       = [''extract_bdns'', ''fetch_subsidy_info'', ''find_pdf_urls'', ''download_pdfs'',
          ''analyze_subsidy'', ''save_results'']
   \<and> distinct (map fst (fixed_order_trace E s))"
  by (simp add: invoke_build_workflow) (simp add: fixed_order_trace_def Let_def)

theorem every_stage_runs_once_witness:
  "error (extract_bdns_node offline_env (initial_state JNull JNull [])) \<noteq> None
   \<and> map fst (fixed_order_trace offline_env (initial_state JNull JNull []))
       = [''extract_bdns'', ''fetch_subsidy_info'', ''find_pdf_urls'', ''download_pdfs'',
          ''analyze_subsidy'', ''save_results'']
   \<and> invoke (build_workflow offline_env) (initial_state JNull JNull [])
       = Inr (save_results_node offline_env (analyze_subsidy_node offline_env
                (download_pdfs_node offline_env (find_pdf_urls_node offline_env
                  (fetch_subsidy_info_node offline_env
                    (extract_bdns_node offline_env (initial_state JNull JNull [])))))),
              fixed_order_trace offline_env (initial_state JNull JNull []))"
  using every_stage_runs_once [of offline_env "initial_state JNull JNull []"]
  by (simp add: extract_bdns_node_def extract_bdns_body_def initial_state_def catch_def
      dict_get_def py_or_def)

section \<open>The registry client\<close>

lemma fetch_non_200:
  assumes "truthy (bdns_code s)"
      and "session_get E (api_url_of E (bdns_code s)) = Inr r" and "status_code r \<noteq> 200"
  shows "fetch_subsidy_info_node E s =
           s\<lparr>logs := logs s @ [py ''API call failed with status: '' @ int_str (status_code r)],
             console := console s @
               [(INFO, py ''Calling API: '' @ api_url_of E (bdns_code s)),
                (WARNING, py ''API returned status code: '' @ int_str (status_code r))]\<rparr>"
  using assms
  by (simp add: fetch_subsidy_info_node_def fetch_subsidy_info_body_def catch_def Let_def
      add_log_def logger_info_def logger_warning_def)

lemma fetch_network_failure:
  assumes "truthy (bdns_code s)"
      and "session_get E (api_url_of E (bdns_code s)) = Inl e"
  shows "fetch_subsidy_info_node E s =
           s\<lparr>error := Some (py ''Error fetching subsidy info: '' @ e),
             console := console s @
               [(INFO, py ''Calling API: '' @ api_url_of E (bdns_code s)),
                (ERROR, py ''Error fetching subsidy info: '' @ e)]\<rparr>"
  using assms
  by (simp add: fetch_subsidy_info_node_def fetch_subsidy_info_body_def catch_def Let_def
      add_log_def logger_info_def logger_error_def)

text \<open>
  C2, as the code has it. With a resolved identifier, a response whose status is not
  200 changes nothing but \<open>logs\<close>, which gets one entry more (and the logger output):
  \<open>error\<close> and \<open>subsidy_data\<close> stay as they were. A network failure, that is an
  exception raised by the GET, is handled by the node's \<open>except\<close> clause instead: it
  sets \<open>error\<close> to the text \<open>Error fetching subsidy info: ...\<close>, and leaves \<open>logs\<close> and
  \<open>subsidy_data\<close> as they were.
\<close>

theorem registry_failure_handling:
  assumes "truthy (bdns_code s)"
  shows "(session_get E (api_url_of E (bdns_code s)) = Inr r \<and> status_code r \<noteq> 200 \<longrightarrow>
            fetch_subsidy_info_node E s =
              s\<lparr>logs := logs s @ [py ''API call failed with status: '' @ int_str (status_code r)],
                console := console s @
                  [(INFO, py ''Calling API: '' @ api_url_of E (bdns_code s)),
                   (WARNING, py ''API returned status code: '' @ int_str (status_code r))]\<rparr>)
       \<and> (session_get E (api_url_of E (bdns_code s)) = Inl e \<longrightarrow>
            fetch_subsidy_info_node E s =
              s\<lparr>error := Some (py ''Error fetching subsidy info: '' @ e),
                console := console s @
                  [(INFO, py ''Calling API: '' @ api_url_of E (bdns_code s)),
                   (ERROR, py ''Error fetching subsidy info: '' @ e)]\<rparr>)"
  using assms fetch_non_200 [of s E r] fetch_network_failure [of s E e] by blast

theorem registry_failure_handling_witness:
  "logs (fetch_subsidy_info_node not_found_env (initial_state (JStr (py ''845133'')) JNull []))
     = [py ''API call failed with status: 404'']
   \<and> error (fetch_subsidy_info_node not_found_env (initial_state (JStr (py ''845133'')) JNull []))
     = None
   \<and> subsidy_data
       (fetch_subsidy_info_node not_found_env (initial_state (JStr (py ''845133'')) JNull []))
     = []"
proof -
  let ?s = "initial_state (JStr (py ''845133'')) JNull []"
  let ?r = "\<lparr>status_code = 404, content = [], resp_text = [], json_body = Inl []\<rparr>"
  have h: "truthy (bdns_code ?s)" by (simp add: initial_state_def py_def)
  have g: "session_get not_found_env (api_url_of not_found_env (bdns_code ?s)) = Inr ?r
             \<and> status_code ?r \<noteq> 200"
    by (simp add: not_found_env_def)
  note t = registry_failure_handling [OF h, of not_found_env ?r, THEN conjunct1, rule_format, OF g]
  have n: "int_str 404 = py ''404''"
    by (simp add: int_str_def digits_of.simps py_def)
  show ?thesis
    by (simp add: t n) (simp add: initial_state_def py_def)
qed

text \<open>
  The claim as written fails on a network failure: without network the node sets
  \<open>error\<close> and appends nothing to \<open>logs\<close>.
\<close>

theorem registry_network_failure_sets_error:
  "truthy (bdns_code (initial_state (JStr (py ''845133'')) JNull []))
   \<and> session_get offline_env (api_url_of offline_env (JStr (py ''845133''))) = Inl (py ''offline'')
   \<and> error (initial_state (JStr (py ''845133'')) JNull []) = None
   \<and> error (fetch_subsidy_info_node offline_env (initial_state (JStr (py ''845133'')) JNull []))
        = Some (py ''Error fetching subsidy info: offline'')
   \<and> logs (fetch_subsidy_info_node offline_env (initial_state (JStr (py ''845133'')) JNull [])) = []"
  by (simp add: fetch_subsidy_info_node_def fetch_subsidy_info_body_def catch_def Let_def
      add_log_def logger_info_def logger_error_def initial_state_def offline_env_def py_def)

section \<open>The identifier resolver\<close>

lemma not_digit: "\<not> re_digit U 47" "\<not> re_digit U 10"
  by (simp_all add: re_digit_def ascii_digit_def)

lemma url_match_sound:
  assumes "extract_bdns_from_url U u = Some d"
  shows "d \<noteq> [] \<and> (\<forall>c \<in> set d. re_digit U c)
         \<and> (\<exists>pre. u = pre @ [47] @ d \<or> u = pre @ [47] @ d @ [10])"
proof -
  define body where "body = (if u \<noteq> [] \<and> last u = 10 then butlast u else u)"
  define before where "before = rev (dropWhile (re_digit U) (rev body))"
  have d: "d = rev (takeWhile (re_digit U) (rev body))" and ne: "d \<noteq> []"
    and b: "before \<noteq> []" "last before = 47"
    using assms by (auto simp: extract_bdns_from_url_def Let_def body_def before_def split: if_splits)
  have "rev body = takeWhile (re_digit U) (rev body) @ dropWhile (re_digit U) (rev body)" by simp
  then have "body = before @ d" unfolding d before_def
    by (metis rev_append rev_rev_ident)
  moreover obtain pre where "before = pre @ [47]" using b
    by (metis append_butlast_last_id)
  moreover have "u = body \<or> u = body @ [10]"
    by (auto simp: body_def) (metis append_butlast_last_id)
  moreover have "\<forall>c \<in> set d. re_digit U c" unfolding d by (auto dest: set_takeWhileD)
  ultimately show ?thesis using ne by auto
qed

lemma url_digits_split:
  assumes "d \<noteq> []" "\<forall>c \<in> set d. re_digit U c"
  shows "rev (takeWhile (re_digit U) (rev (pre @ [47] @ d))) = d"
    and "rev (dropWhile (re_digit U) (rev (pre @ [47] @ d))) = pre @ [47]"
proof -
  have all: "\<forall>c \<in> set (rev d). re_digit U c" using assms(2) by simp
  have split: "rev (pre @ [47] @ d) = rev d @ 47 # rev pre" by simp
  have "takeWhile (re_digit U) (rev d @ 47 # rev pre) = rev d"
    using all not_digit(1)[of U] by (simp add: takeWhile_tail takeWhile_eq_all_conv)
  then show "rev (takeWhile (re_digit U) (rev (pre @ [47] @ d))) = d"
    unfolding split by simp
  have "dropWhile (re_digit U) (rev d @ 47 # rev pre) = 47 # rev pre"
    using all not_digit(1)[of U] by (simp add: dropWhile_append3)
  then show "rev (dropWhile (re_digit U) (rev (pre @ [47] @ d))) = pre @ [47]"
    unfolding split by simp
qed

lemma url_match_complete:
  assumes "d \<noteq> []" "\<forall>c \<in> set d. re_digit U c" "u = pre @ [47] @ d \<or> u = pre @ [47] @ d @ [10]"
  shows "extract_bdns_from_url U u = Some d"
proof -
  have ld: "last d \<noteq> 10" using assms(1,2) not_digit(2)[of U] by (metis last_in_set)
  have body: "(if u \<noteq> [] \<and> last u = 10 then butlast u else u) = pre @ [47] @ d"
    using assms(3)
  proof
    assume "u = pre @ [47] @ d"
    then show ?thesis using ld assms(1) by simp
  next
    assume "u = pre @ [47] @ d @ [10]"
    then show ?thesis by (simp add: butlast_append)
  qed
  show ?thesis
    unfolding extract_bdns_from_url_def body Let_def
    using url_digits_split[OF assms(1,2), of pre] assms(1) by simp
qed

lemma url_nonempty: "extract_bdns_from_url U u = Some d \<Longrightarrow> u \<noteq> [] \<and> d \<noteq> []"
  using url_match_sound [of U u d] by auto

lemma extract_explicit:
  "truthy (bdns_code s) \<Longrightarrow>
   bdns_code (extract_bdns_node E s) = bdns_code s \<and> error (extract_bdns_node E s) = error s"
  by (simp add: extract_bdns_node_def extract_bdns_body_def catch_def Let_def add_log_def)

lemma extract_from_url:
  assumes "\<not> truthy (bdns_code s)" "source_url s = JStr u" "extract_bdns_from_url (rt E) u = Some d"
  shows "bdns_code (extract_bdns_node E s) = JStr d"
  using assms url_nonempty [OF assms(3)]
  by (simp add: extract_bdns_node_def extract_bdns_body_def catch_def Let_def add_log_def
      logger_info_def)

lemma extract_from_data:
  assumes "\<not> truthy (bdns_code s)"
      and "\<not> truthy (source_url s) \<or> (source_url s = JStr u \<and> extract_bdns_from_url (rt E) u = None)"
  shows "let c = py_or (dict_get (subsidy_data s) (py ''codigo_bdns''))
                       (dict_get (subsidy_data s) (py ''bdns_code''))
         in (truthy c \<longrightarrow> bdns_code (extract_bdns_node E s) = c)
            \<and> (\<not> truthy c \<longrightarrow> bdns_code (extract_bdns_node E s) = bdns_code s
                 \<and> error (extract_bdns_node E s) = Some (py ''No BDNS code could be extracted''))"
  using assms
  by (auto simp: extract_bdns_node_def extract_bdns_body_def catch_def Let_def add_log_def)

text \<open>
  C6. The resolver takes the identifier from the first source that yields one, in the
  order explicit identifier, URL, data bag. (a) An identifier that is already set is
  kept, whatever the URL and the data bag hold. (b) Otherwise, if the URL has a
  trailing numeric segment, that segment becomes the identifier, whatever the data
  bag holds. (c) Otherwise (the URL is missing or empty, or has no such segment) the
  identifier is the value under \<open>codigo_bdns\<close>, or else under \<open>bdns_code\<close>, if that is a
  true value; if it is not, the identifier stays empty and \<open>error\<close> is set. The trailing
  numeric segment is: a slash, then one or more digits up to the end of the URL (a
  single final newline apart).
\<close>

theorem identifier_priority:
  "(truthy (bdns_code s) \<longrightarrow>
      bdns_code (extract_bdns_node E s) = bdns_code s \<and> error (extract_bdns_node E s) = error s)
   \<and> (\<not> truthy (bdns_code s) \<and> source_url s = JStr u \<and> extract_bdns_from_url (rt E) u = Some d
        \<longrightarrow> bdns_code (extract_bdns_node E s) = JStr d)
   \<and> (\<not> truthy (bdns_code s)
        \<and> (\<not> truthy (source_url s)
             \<or> (source_url s = JStr u \<and> extract_bdns_from_url (rt E) u = None))
        \<longrightarrow> (let c = py_or (dict_get (subsidy_data s) (py ''codigo_bdns''))
                           (dict_get (subsidy_data s) (py ''bdns_code''))
             in (truthy c \<longrightarrow> bdns_code (extract_bdns_node E s) = c)
                \<and> (\<not> truthy c \<longrightarrow> bdns_code (extract_bdns_node E s) = bdns_code s
                     \<and> error (extract_bdns_node E s)
                         = Some (py ''No BDNS code could be extracted''))))
   \<and> (extract_bdns_from_url U v = Some w \<longleftrightarrow>
        w \<noteq> [] \<and> (\<forall>c \<in> set w. re_digit U c)
        \<and> (\<exists>pre. v = pre @ [47] @ w \<or> v = pre @ [47] @ w @ [10]))"
proof (intro conjI impI)
  assume "truthy (bdns_code s)"
  then show "bdns_code (extract_bdns_node E s) = bdns_code s"
    and "error (extract_bdns_node E s) = error s"
    by (simp_all add: extract_explicit)
next
  assume "\<not> truthy (bdns_code s) \<and> source_url s = JStr u \<and> extract_bdns_from_url (rt E) u = Some d"
  then show "bdns_code (extract_bdns_node E s) = JStr d"
    by (simp add: extract_from_url)
next
  assume "\<not> truthy (bdns_code s)
        \<and> (\<not> truthy (source_url s)
             \<or> (source_url s = JStr u \<and> extract_bdns_from_url (rt E) u = None))"
  then show "let c = py_or (dict_get (subsidy_data s) (py ''codigo_bdns''))
                           (dict_get (subsidy_data s) (py ''bdns_code''))
             in (truthy c \<longrightarrow> bdns_code (extract_bdns_node E s) = c)
                \<and> (\<not> truthy c \<longrightarrow> bdns_code (extract_bdns_node E s) = bdns_code s
                     \<and> error (extract_bdns_node E s)
                         = Some (py ''No BDNS code could be extracted''))"
    using extract_from_data [of s u E] by blast
next
  show "extract_bdns_from_url U v = Some w \<longleftrightarrow>
        w \<noteq> [] \<and> (\<forall>c \<in> set w. re_digit U c)
        \<and> (\<exists>pre. v = pre @ [47] @ w \<or> v = pre @ [47] @ w @ [10])"
    using url_match_sound [of U v w] url_match_complete [of w U v] by blast
qed

theorem identifier_priority_witness:
  "bdns_code (extract_bdns_node offline_env
     (initial_state (JStr []) (JStr (py ''https://x.es/845133''))
        [(py ''bdns_code'', JStr (py ''999''))])) = JStr (py ''845133'')"
proof -
  let ?s = "initial_state (JStr []) (JStr (py ''https://x.es/845133''))
              [(py ''bdns_code'', JStr (py ''999''))]"
  have h: "\<not> truthy (bdns_code ?s) \<and> source_url ?s = JStr (py ''https://x.es/845133'')
           \<and> extract_bdns_from_url (rt offline_env) (py ''https://x.es/845133'')
               = Some (py ''845133'')"
    by (simp add: initial_state_def offline_env_def ascii_rt_def extract_bdns_from_url_def
        re_digit_def ascii_digit_def py_def)
  show ?thesis
    using identifier_priority [of ?s offline_env "py ''https://x.es/845133''" "py ''845133''",
        THEN conjunct2, THEN conjunct1, rule_format, OF h] .
qed

section \<open>What each node leaves alone\<close>

lemma find_loop_frame:
  "find_loop E b docs acc s = Inr (acc', s') \<Longrightarrow> s' = s\<lparr>console := console s'\<rparr>"
  "find_loop E b docs acc s = Inl (e, s') \<Longrightarrow> s' = s\<lparr>console := console s'\<rparr>"
  by (induction E b docs acc s rule: find_loop.induct;
      fastforce simp: logger_info_def split: sum.splits bool.splits prod.splits)+

lemma download_loop_frame:
  "download_loop E b dir refs acc n s = (acc', n', s') \<Longrightarrow> s' = s\<lparr>console := console s'\<rparr>"
  by (induction E b dir refs acc n s rule: download_loop.induct)
     (fastforce split: prod.splits option.splits)+

lemma download_loop_eq:
  "download_loop E b dir refs acc n s =
     (acc @ List.map_filter (\<lambda>r. fst (download_one E b dir r)) refs,
      n + int (length (List.map_filter (\<lambda>r. fst (download_one E b dir r)) refs)),
      s\<lparr>console := console s @ concat (map (\<lambda>r. snd (download_one E b dir r)) refs)\<rparr>)"
proof (induction refs arbitrary: acc n s)
  case Nil
  then show ?case by (simp add: List.map_filter_simps)
next
  case (Cons r refs)
  show ?case
  proof (cases "download_one E b dir r")
    case (Pair t out)
    then show ?thesis
      by (cases t) (simp_all add: Cons.IH List.map_filter_simps)
  qed
qed

lemma extract_frame:
  "pdf_urls (extract_bdns_node E s) = pdf_urls s"
  "pdf_texts (extract_bdns_node E s) = pdf_texts s"
  "pdf_count (extract_bdns_node E s) = pdf_count s"
  "analysis_result (extract_bdns_node E s) = analysis_result s"
  "raw_analysis (extract_bdns_node E s) = raw_analysis s"
  "subsidy_data (extract_bdns_node E s) = subsidy_data s"
  by (simp_all add: extract_bdns_node_def extract_bdns_body_def catch_def Let_def add_log_def
      logger_info_def logger_error_def split: json.splits option.splits)

lemma fetch_frame:
  "pdf_urls (fetch_subsidy_info_node E s) = pdf_urls s"
  "pdf_texts (fetch_subsidy_info_node E s) = pdf_texts s"
  "pdf_count (fetch_subsidy_info_node E s) = pdf_count s"
  "analysis_result (fetch_subsidy_info_node E s) = analysis_result s"
  "raw_analysis (fetch_subsidy_info_node E s) = raw_analysis s"
  "bdns_code (fetch_subsidy_info_node E s) = bdns_code s"
  by (simp_all add: fetch_subsidy_info_node_def fetch_subsidy_info_body_def catch_def Let_def
      add_log_def logger_info_def logger_error_def logger_warning_def split: sum.splits)

lemma find_body_cases:
  "(\<exists>e c. find_pdf_urls_body E s = Inl (e, s\<lparr>console := c\<rparr>))
   \<or> (\<exists>found c l. find_pdf_urls_body E s = Inr (s\<lparr>pdf_urls := found, logs := l, console := c\<rparr>))"
proof (cases "truthy (dict_get (subsidy_data s) (py ''documentos''))")
  case False
  then have "find_pdf_urls_body E s =
       Inr (s\<lparr>pdf_urls := [], logs := logs s @ [py ''Found '' @ int_str 0 @ py '' PDFs''],
              console := console s @ [(INFO, py ''No documents found in API response'')]\<rparr>)"
    by (simp add: find_pdf_urls_body_def Let_def add_log_def logger_info_def)
  then show ?thesis by blast
next
  case True
  show ?thesis
  proof (cases "py_len (dict_get (subsidy_data s) (py ''documentos''))")
    case (Inl e)
    with True have "find_pdf_urls_body E s = Inl (e, s\<lparr>console := console s\<rparr>)"
      by (simp add: find_pdf_urls_body_def Let_def)
    then show ?thesis by blast
  next
    case (Inr n)
    let ?s0 = "logger_info (py ''Found '' @ int_str n @ py '' documents in API'') s"
    show ?thesis
    proof (cases "find_loop E (bdns_code s) (py_iter (dict_get (subsidy_data s) (py ''documentos''))) [] ?s0")
      case (Inl x)
      obtain e s' where x: "x = (e, s')" by (cases x)
      from find_loop_frame(2)[OF Inl[unfolded x]] have "s' = s\<lparr>console := console s'\<rparr>"
        by (simp add: logger_info_def)
      with True Inr Inl x have "find_pdf_urls_body E s = Inl (e, s\<lparr>console := console s'\<rparr>)"
        by (simp add: find_pdf_urls_body_def Let_def)
      then show ?thesis by blast
    next
      case (Inr y)
      obtain found s' where y: "y = (found, s')" by (cases y)
      from find_loop_frame(1)[OF Inr[unfolded y]] have s': "s' = s\<lparr>console := console s'\<rparr>"
        by (simp add: logger_info_def)
      have "find_pdf_urls_body E s =
              Inr (add_log (py ''Found '' @ int_str (int (length found)) @ py '' PDFs'')
                     (s'\<lparr>pdf_urls := found\<rparr>))"
        using True \<open>py_len _ = Inr n\<close> Inr y by (simp add: find_pdf_urls_body_def Let_def)
      also have "\<dots> = Inr (s\<lparr>pdf_urls := found,
                    logs := logs s @ [py ''Found '' @ int_str (int (length found)) @ py '' PDFs''],
                    console := console s'\<rparr>)"
        by (subst s') (simp add: add_log_def)
      finally show ?thesis by blast
    qed
  qed
qed

lemma find_frame:
  "pdf_texts (find_pdf_urls_node E s) = pdf_texts s"
  "pdf_count (find_pdf_urls_node E s) = pdf_count s"
  "analysis_result (find_pdf_urls_node E s) = analysis_result s"
  "raw_analysis (find_pdf_urls_node E s) = raw_analysis s"
  "bdns_code (find_pdf_urls_node E s) = bdns_code s"
  "subsidy_data (find_pdf_urls_node E s) = subsidy_data s"
  using find_body_cases [of E s]
  by (auto simp: find_pdf_urls_node_def catch_def logger_error_def)

lemma download_frame:
  "analysis_result (download_pdfs_node E s) = analysis_result s"
  "raw_analysis (download_pdfs_node E s) = raw_analysis s"
  "bdns_code (download_pdfs_node E s) = bdns_code s"
  "subsidy_data (download_pdfs_node E s) = subsidy_data s"
  "pdf_urls (download_pdfs_node E s) = pdf_urls s"
  by (simp_all add: download_pdfs_node_def download_pdfs_body_def catch_def Let_def add_log_def
      logger_info_def logger_error_def download_loop_eq split: sum.splits)

lemma download_count:
  "pdf_count s = int (length (pdf_texts s)) \<Longrightarrow>
   pdf_count (download_pdfs_node E s) = int (length (pdf_texts (download_pdfs_node E s)))"
  by (simp add: download_pdfs_node_def download_pdfs_body_def catch_def Let_def add_log_def
      logger_info_def logger_error_def download_loop_eq split: sum.splits)

lemma attach_frame:
  "pdf_texts (attach_metadata m s) = pdf_texts s"
  "pdf_count (attach_metadata m s) = pdf_count s"
  by (simp_all add: attach_metadata_def split: option.splits list.splits)

lemma store_frame:
  "pdf_texts (store_parsed E j t s) = pdf_texts s"
  "pdf_count (store_parsed E j t s) = pdf_count s"
  by (simp_all add: store_parsed_def logger_info_def logger_warning_def logger_error_def
      split: option.splits list.splits)

lemma store_analysis_Inr:
  "extract_json_from_text (json_loads E) t = Inr j \<Longrightarrow>
   store_analysis E t s = Inr (store_parsed E j t s)"
  by (simp add: store_analysis_def)

lemma store_analysis_Inl:
  "extract_json_from_text (json_loads E) t = Inl e \<Longrightarrow> store_analysis E t s = Inl (e, s)"
  by (simp add: store_analysis_def)

lemma analyze_frame:
  "pdf_texts (analyze_subsidy_node E s) = pdf_texts s"
  "pdf_count (analyze_subsidy_node E s) = pdf_count s"
  by (simp_all add: analyze_subsidy_node_def analyze_subsidy_body_def catch_def Let_def add_log_def
      logger_info_def logger_error_def attach_frame store_frame store_analysis_def
      split: sum.splits prod.splits list.splits)

lemma save_frame:
  "pdf_texts (save_results_node E s) = pdf_texts s"
  "pdf_count (save_results_node E s) = pdf_count s"
  "analysis_result (save_results_node E s) = analysis_result s"
  "raw_analysis (save_results_node E s) = raw_analysis s"
  by (simp_all add: save_results_node_def save_results_body_def catch_def Let_def add_log_def
      logger_info_def logger_error_def logger_warning_def create_download_directory_def
      split: sum.splits option.splits)


lemma before_download:
  "pdf_count (find_pdf_urls_node E (fetch_subsidy_info_node E (extract_bdns_node E
      (initial_state code src data)))) = 0"
  "pdf_texts (find_pdf_urls_node E (fetch_subsidy_info_node E (extract_bdns_node E
      (initial_state code src data)))) = []"
  "analysis_result (download_pdfs_node E (find_pdf_urls_node E (fetch_subsidy_info_node E
      (extract_bdns_node E (initial_state code src data))))) = None"
  "raw_analysis (download_pdfs_node E (find_pdf_urls_node E (fetch_subsidy_info_node E
      (extract_bdns_node E (initial_state code src data))))) = None"
  by (simp_all add: find_frame fetch_frame extract_frame download_frame initial_state_def)

section \<open>The analysis stage\<close>

lemma build_metadata_store [simp]:
  "build_metadata E (store_parsed E j t x) texts u = build_metadata E x texts u"
  by (simp add: build_metadata_def store_parsed_def logger_info_def logger_warning_def
      logger_error_def split: option.splits list.splits)

lemma build_metadata_console [simp]:
  "build_metadata E (s\<lparr>console := c\<rparr>) texts u = build_metadata E s texts u"
  by (simp add: build_metadata_def)

lemma analyze_returned:
  assumes "llm_invoke E (build_prompt (rt E) (subsidy_data s) (pdf_texts s)) = Inr (analysis_text, token_usage)"
  shows "\<exists>c. analyze_subsidy_node E s =
           (case store_analysis E analysis_text (s\<lparr>console := c\<rparr>) of
              Inr s3 \<Rightarrow>
                add_log (py ''LLM analysis completed'')
                  (attach_metadata (build_metadata E s (pdf_texts s) token_usage) s3)
            | Inl (e, s') \<Rightarrow>
                (logger_error (py ''Error in LLM analysis: '' @ e) s')
                  \<lparr>error := Some (py ''Error in LLM analysis: '' @ e)\<rparr>)"
proof (cases token_usage)
  case Nil
  with assms have "analyze_subsidy_node E s =
           (case store_analysis E analysis_text
                   (s\<lparr>console := console s @ [(INFO, py ''Calling LLM for analysis...'')]\<rparr>) of
              Inr s3 \<Rightarrow>
                add_log (py ''LLM analysis completed'')
                  (attach_metadata (build_metadata E s (pdf_texts s) token_usage) s3)
            | Inl (e, s') \<Rightarrow>
                (logger_error (py ''Error in LLM analysis: '' @ e) s')
                  \<lparr>error := Some (py ''Error in LLM analysis: '' @ e)\<rparr>)"
    by (simp add: analyze_subsidy_node_def analyze_subsidy_body_def catch_def Let_def
        logger_info_def store_analysis_def split: sum.splits)
  then show ?thesis by blast
next
  case (Cons u us)
  with assms have "analyze_subsidy_node E s =
           (case store_analysis E analysis_text
                   (s\<lparr>console := console s @ [(INFO, py ''Calling LLM for analysis...''),
                     (INFO, py ''Token usage - Model: '' @ usage_model_name u
                                 @ py '', Input: '' @ int_str (input_tokens u)
                                 @ py '', Output: '' @ int_str (output_tokens u))]\<rparr>) of
              Inr s3 \<Rightarrow>
                add_log (py ''LLM analysis completed'')
                  (attach_metadata (build_metadata E s (pdf_texts s) token_usage) s3)
            | Inl (e, s') \<Rightarrow>
                (logger_error (py ''Error in LLM analysis: '' @ e) s')
                  \<lparr>error := Some (py ''Error in LLM analysis: '' @ e)\<rparr>)"
    by (simp add: analyze_subsidy_node_def analyze_subsidy_body_def catch_def Let_def
        logger_info_def store_analysis_def split: sum.splits)
  then show ?thesis by blast
qed

lemma store_cases:
  "validate_result (kv # kvs) = Some r \<Longrightarrow>
     analysis_result (store_parsed E (Some (kv # kvs)) t s) = Some r
     \<and> raw_analysis (store_parsed E (Some (kv # kvs)) t s) = raw_analysis s
     \<and> error (store_parsed E (Some (kv # kvs)) t s) = error s"
  "validate_result (kv # kvs) = None \<Longrightarrow>
     analysis_result (store_parsed E (Some (kv # kvs)) t s) = analysis_result s
     \<and> raw_analysis (store_parsed E (Some (kv # kvs)) t s) = Some (kv # kvs)
     \<and> error (store_parsed E (Some (kv # kvs)) t s) = error s"
  "j = None \<or> j = Some [] \<Longrightarrow>
     analysis_result (store_parsed E j t s) = analysis_result s
     \<and> raw_analysis (store_parsed E j t s) = Some [(py ''raw_response'', JStr t)]
     \<and> error (store_parsed E j t s) = Some (py ''Could not extract valid JSON from LLM response'')"
  by (auto simp: store_parsed_def logger_info_def logger_warning_def logger_error_def)

lemma analysis_outcome:
  assumes "llm_invoke E (build_prompt (rt E) (subsidy_data s) (pdf_texts s)) = Inr (analysis_text, token_usage)"
      and "analysis_result s = None" and "raw_analysis s = None"
      and "extract_json_from_text (json_loads E) analysis_text = Inr parsed"
  shows "let s5 = analyze_subsidy_node E s;
             meta = build_metadata E s (pdf_texts s) token_usage
         in ((analysis_result s5 \<noteq> None) \<noteq> (raw_analysis s5 \<noteq> None))
            \<and> (case parsed of
                  Some (kv # kvs) \<Rightarrow>
                    (case validate_result (kv # kvs) of
                       Some r \<Rightarrow> analysis_result s5 = Some (r\<lparr>metadata := meta\<rparr>)
                                  \<and> raw_analysis s5 = None
                     | None \<Rightarrow> analysis_result s5 = None
                               \<and> raw_analysis s5
                                   = Some (dict_set (kv # kvs) (py ''metadata'') (JObj meta)))
                | _ \<Rightarrow> analysis_result s5 = None
                       \<and> raw_analysis s5
                           = Some [(py ''raw_response'', JStr analysis_text),
                                   (py ''metadata'', JObj meta)])"
proof -
  obtain c where "analyze_subsidy_node E s =
           (case store_analysis E analysis_text (s\<lparr>console := c\<rparr>) of
              Inr s3 \<Rightarrow>
                add_log (py ''LLM analysis completed'')
                  (attach_metadata (build_metadata E s (pdf_texts s) token_usage) s3)
            | Inl (e, s') \<Rightarrow>
                (logger_error (py ''Error in LLM analysis: '' @ e) s')
                  \<lparr>error := Some (py ''Error in LLM analysis: '' @ e)\<rparr>)"
    using analyze_returned [OF assms(1)] by blast
  then have a: "analyze_subsidy_node E s =
           add_log (py ''LLM analysis completed'')
             (attach_metadata (build_metadata E s (pdf_texts s) token_usage)
                (store_parsed E parsed analysis_text (s\<lparr>console := c\<rparr>)))"
    by (simp add: store_analysis_Inr [OF assms(4)])
  have ne: "py ''raw_response'' \<noteq> py ''metadata''" by (simp add: py_def)
  show ?thesis
  proof (cases parsed)
    case None
    then show ?thesis
      using store_cases(3) [of parsed E analysis_text "s\<lparr>console := c\<rparr>"] assms(2,3) ne
      by (simp add: a Let_def add_log_def attach_metadata_def dict_set_def)
  next
    case (Some d)
    show ?thesis
    proof (cases d)
      case Nil
      then show ?thesis
        using Some store_cases(3) [of parsed E analysis_text "s\<lparr>console := c\<rparr>"] assms(2,3) ne
        by (simp add: a Let_def add_log_def attach_metadata_def dict_set_def)
    next
      case (Cons kv kvs)
      show ?thesis
      proof (cases "validate_result (kv # kvs)")
        case None
        then show ?thesis
          using Some Cons store_cases(2) [of kv kvs E analysis_text "s\<lparr>console := c\<rparr>"] assms(2,3)
          by (simp add: a Let_def add_log_def attach_metadata_def dict_set_def)
      next
        case (Some r)
        then show ?thesis
          using \<open>parsed = Some d\<close> Cons
            store_cases(1) [of kv kvs r E analysis_text "s\<lparr>console := c\<rparr>"] assms(2,3)
          by (simp add: a Let_def add_log_def attach_metadata_def)
      qed
    qed
  qed
qed

lemma analysis_raised:
  assumes "llm_invoke E (build_prompt (rt E) (subsidy_data s) (pdf_texts s)) = Inr (analysis_text, token_usage)"
      and "extract_json_from_text (json_loads E) analysis_text = Inl e"
  shows "analysis_result (analyze_subsidy_node E s) = analysis_result s
         \<and> raw_analysis (analyze_subsidy_node E s) = raw_analysis s
         \<and> error (analyze_subsidy_node E s) = Some (py ''Error in LLM analysis: '' @ e)"
proof -
  obtain c where "analyze_subsidy_node E s =
           (case store_analysis E analysis_text (s\<lparr>console := c\<rparr>) of
              Inr s3 \<Rightarrow>
                add_log (py ''LLM analysis completed'')
                  (attach_metadata (build_metadata E s (pdf_texts s) token_usage) s3)
            | Inl (e, s') \<Rightarrow>
                (logger_error (py ''Error in LLM analysis: '' @ e) s')
                  \<lparr>error := Some (py ''Error in LLM analysis: '' @ e)\<rparr>)"
    using analyze_returned [OF assms(1)] by blast
  then show ?thesis
    by (simp add: store_analysis_Inl [OF assms(2)] logger_error_def)
qed

lemma json_span_sound:
  assumes "json_span t = Some m"
  shows "\<exists>pre inner post. t = pre @ [123] @ inner @ [125] @ post \<and> 123 \<notin> set pre
           \<and> 125 \<notin> set post \<and> m = [123] @ inner @ [125]"
proof -
  obtain b rest where dw: "dropWhile (\<lambda>c. c \<noteq> 123) t = b # rest"
    using assms by (auto simp: json_span_def split: list.splits)
  define pre where "pre = takeWhile (\<lambda>c. c \<noteq> 123) t"
  define body where "body = rev (dropWhile (\<lambda>c. c \<noteq> 125) (rev rest))"
  define post where "post = rev (takeWhile (\<lambda>c. c \<noteq> 125) (rev rest))"
  have b: "b = 123" using hd_dropWhile [of "\<lambda>c. c \<noteq> 123" t] dw by auto
  have t: "t = pre @ b # rest" unfolding pre_def using takeWhile_dropWhile_id [of "\<lambda>c. c \<noteq> 123" t] dw
    by simp
  have p: "123 \<notin> set pre" unfolding pre_def by (auto dest: set_takeWhileD)
  have ne: "body \<noteq> []" and m: "m = b # body"
    using assms dw by (auto simp: json_span_def body_def Let_def split: if_splits)
  have "rev rest = takeWhile (\<lambda>c. c \<noteq> 125) (rev rest) @ dropWhile (\<lambda>c. c \<noteq> 125) (rev rest)"
    by simp
  then have rest: "rest = body @ post" unfolding body_def post_def
    by (metis rev_append rev_rev_ident)
  have q: "125 \<notin> set post" unfolding post_def by (auto dest: set_takeWhileD)
  have "dropWhile (\<lambda>c. c \<noteq> 125) (rev rest) \<noteq> []" using ne by (simp add: body_def)
  then have "hd (dropWhile (\<lambda>c. c \<noteq> 125) (rev rest)) = 125"
    using hd_dropWhile [of "\<lambda>c. c \<noteq> 125" "rev rest"] by auto
  then have "last body = 125" using ne unfolding body_def by (simp add: last_rev)
  then obtain inner where "body = inner @ [125]" using ne by (metis append_butlast_last_id)
  then show ?thesis using t b p q m rest by auto
qed

lemma json_span_complete:
  assumes "t = pre @ [123] @ inner @ [125] @ post" "123 \<notin> set pre" "125 \<notin> set post"
  shows "json_span t = Some ([123] @ inner @ [125])"
proof -
  have "dropWhile (\<lambda>c. c \<noteq> 123) t = 123 # inner @ [125] @ post"
    using assms(1,2) by (auto simp: dropWhile_append3)
  moreover have "rev (inner @ [125] @ post) = rev post @ 125 # rev inner" by simp
  moreover have "dropWhile (\<lambda>c. c \<noteq> 125) (rev post @ 125 # rev inner) = 125 # rev inner"
    using assms(3) by (auto simp: dropWhile_append3)
  ultimately show ?thesis by (simp add: json_span_def)
qed

lemma no_span_no_json: "json_span t = None \<Longrightarrow> extract_json_from_text f t = Inr None"
  by (simp add: extract_json_from_text_def)

lemma sample_validates:
  "validate_result sample_object \<noteq> None"
  by (simp add: sample_object_def validate_result_def validate_identification_def
      validate_details_def validate_economic_def validate_deadlines_def field_str_def
      field_opt_str_def field_str_list_def field_opt_str_dict_def field_dict_def py_def)

lemma sample_parses:
  "extract_json_from_text (json_loads sample_env) sample_response = Inr (Some sample_object)"
  by (simp add: extract_json_from_text_def json_span_def sample_env_def sample_response_def
      sample_span_def py_def)


text \<open>
  C4, as the code has it. The stage takes the span from the first opening brace of the
  response text to the last closing brace behind it, and hands it to the JSON parser.
  If the span exists and parses to a non-empty object, the object is validated against
  the result schema: on success \<open>analysis_result\<close> is the validated result, on failure
  \<open>raw_analysis\<close> is the parsed object; \<open>error\<close> is left alone in both cases. If there
  is no such span at all, \<open>error\<close> is set and \<open>raw_analysis\<close> holds the response text
  under the key \<open>raw_response\<close>. (When the model call returns, the node's state is
  this one with the metadata attached and one entry added to \<open>logs\<close>; and if the
  parser raises anything but \<open>JSONDecodeError\<close>, the node's handler sets \<open>error\<close>.)
\<close>

theorem response_handling:
  "(json_span t = Some m \<longleftrightarrow>
      (\<exists>pre inner post. t = pre @ [123] @ inner @ [125] @ post \<and> 123 \<notin> set pre
         \<and> 125 \<notin> set post \<and> m = [123] @ inner @ [125]))
   \<and> extract_json_from_text (json_loads E) t
       = (case json_span t of Some matched \<Rightarrow> json_loads E matched | None \<Rightarrow> Inr None)
   \<and> (extract_json_from_text (json_loads E) t = Inr (Some (kv # kvs))
        \<and> validate_result (kv # kvs) = Some r \<longrightarrow>
          (\<exists>s'. store_analysis E t s = Inr s'
             \<and> analysis_result s' = Some r
             \<and> raw_analysis s' = raw_analysis s
             \<and> error s' = error s))
   \<and> (extract_json_from_text (json_loads E) t = Inr (Some (kv # kvs))
        \<and> validate_result (kv # kvs) = None \<longrightarrow>
          (\<exists>s'. store_analysis E t s = Inr s'
             \<and> raw_analysis s' = Some (kv # kvs)
             \<and> analysis_result s' = analysis_result s
             \<and> error s' = error s))
   \<and> (json_span t = None \<longrightarrow>
          (\<exists>s'. store_analysis E t s = Inr s'
             \<and> error s' = Some (py ''Could not extract valid JSON from LLM response'')
             \<and> raw_analysis s' = Some [(py ''raw_response'', JStr t)]
             \<and> analysis_result s' = analysis_result s))
   \<and> (llm_invoke E (build_prompt (rt E) (subsidy_data s) (pdf_texts s)) = Inr (t, token_usage) \<longrightarrow>
        (\<exists>c. analyze_subsidy_node E s =
           (case store_analysis E t (s\<lparr>console := c\<rparr>) of
              Inr s3 \<Rightarrow>
                add_log (py ''LLM analysis completed'')
                  (attach_metadata (build_metadata E s (pdf_texts s) token_usage) s3)
            | Inl (e, s') \<Rightarrow>
                (logger_error (py ''Error in LLM analysis: '' @ e) s')
                  \<lparr>error := Some (py ''Error in LLM analysis: '' @ e)\<rparr>)))"
proof (intro conjI impI)
  show "json_span t = Some m \<longleftrightarrow>
      (\<exists>pre inner post. t = pre @ [123] @ inner @ [125] @ post \<and> 123 \<notin> set pre
         \<and> 125 \<notin> set post \<and> m = [123] @ inner @ [125])"
    using json_span_sound [of t m] json_span_complete [of t] by blast
next
  show "extract_json_from_text (json_loads E) t
       = (case json_span t of Some matched \<Rightarrow> json_loads E matched | None \<Rightarrow> Inr None)"
    by (simp add: extract_json_from_text_def)
next
  assume a: "extract_json_from_text (json_loads E) t = Inr (Some (kv # kvs))
        \<and> validate_result (kv # kvs) = Some r"
  then show "\<exists>s'. store_analysis E t s = Inr s'
             \<and> analysis_result s' = Some r
             \<and> raw_analysis s' = raw_analysis s
             \<and> error s' = error s"
    using store_cases(1) [of kv kvs r E t s] by (simp add: store_analysis_Inr)
next
  assume a: "extract_json_from_text (json_loads E) t = Inr (Some (kv # kvs))
        \<and> validate_result (kv # kvs) = None"
  then show "\<exists>s'. store_analysis E t s = Inr s'
             \<and> raw_analysis s' = Some (kv # kvs)
             \<and> analysis_result s' = analysis_result s
             \<and> error s' = error s"
    using store_cases(2) [of kv kvs E t s] by (simp add: store_analysis_Inr)
next
  assume a: "json_span t = None"
  show "\<exists>s'. store_analysis E t s = Inr s'
             \<and> error s' = Some (py ''Could not extract valid JSON from LLM response'')
             \<and> raw_analysis s' = Some [(py ''raw_response'', JStr t)]
             \<and> analysis_result s' = analysis_result s"
    using store_cases(3) [of None E t s]
    by (simp add: store_analysis_Inr [OF no_span_no_json [OF a]])
next
  assume "llm_invoke E (build_prompt (rt E) (subsidy_data s) (pdf_texts s)) = Inr (t, token_usage)"
  then show "\<exists>c. analyze_subsidy_node E s =
           (case store_analysis E t (s\<lparr>console := c\<rparr>) of
              Inr s3 \<Rightarrow>
                add_log (py ''LLM analysis completed'')
                  (attach_metadata (build_metadata E s (pdf_texts s) token_usage) s3)
            | Inl (e, s') \<Rightarrow>
                (logger_error (py ''Error in LLM analysis: '' @ e) s')
                  \<lparr>error := Some (py ''Error in LLM analysis: '' @ e)\<rparr>)"
    by (rule analyze_returned)
qed

theorem response_handling_witness:
  "\<exists>s'. store_analysis sample_env sample_response (initial_state JNull JNull []) = Inr s'
      \<and> analysis_result s' \<noteq> None \<and> raw_analysis s' = None \<and> error s' = None"
proof -
  obtain kv kvs where o: "sample_object = kv # kvs" by (simp add: sample_object_def)
  obtain r where r: "validate_result sample_object = Some r" using sample_validates by blast
  have h: "extract_json_from_text (json_loads sample_env) sample_response = Inr (Some (kv # kvs))
           \<and> validate_result (kv # kvs) = Some r"
    using sample_parses r o by simp
  note t = response_handling [where E = sample_env and t = sample_response and kv = kv and kvs = kvs
      and r = r and s = "initial_state JNull JNull []",
      THEN conjunct2, THEN conjunct2, THEN conjunct1, rule_format, OF h]
  then show ?thesis by (auto simp: initial_state_def)
qed

text \<open>
  The claim as written fails for the response \<open>{}\<close>: the span exists and parses, to the
  empty object, which does not validate; yet \<open>raw_analysis\<close> does not get the parsed
  object. \<open>error\<close> is set and \<open>raw_analysis\<close> holds the response text, as if there
  were no span.
\<close>

theorem empty_object_is_not_validated:
  "json_span (py ''{}'') = Some (py ''{}'')
   \<and> json_loads empty_object_env (py ''{}'') = Inr (Some [])
   \<and> validate_result [] = None
   \<and> llm_invoke empty_object_env (ANALYSIS_PROMPT_WITHOUT_PDF []) = Inr (py ''{}'', [])
   \<and> error (analyze_subsidy_node empty_object_env (initial_state (JStr (py ''845133'')) JNull []))
       = Some (py ''Could not extract valid JSON from LLM response'')
   \<and> raw_analysis
         (analyze_subsidy_node empty_object_env (initial_state (JStr (py ''845133'')) JNull []))
       = Some [(py ''raw_response'', JStr (py ''{}'')),
               (py ''metadata'',
                  JObj (build_metadata empty_object_env
                          (initial_state (JStr (py ''845133'')) JNull []) [] []))]"
  by (simp add: json_span_def empty_object_env_def validate_result_def field_dict_def
      analyze_subsidy_node_def analyze_subsidy_body_def catch_def build_prompt_def
      combine_pdf_texts_def initial_state_def Let_def attach_metadata_def add_log_def
      store_analysis_def store_parsed_def extract_json_from_text_def logger_error_def
      logger_info_def dict_set_def build_metadata_def offline_env_def py_def)

text \<open>
  C10. Take any run, and let the Analysis Stage return without an exception reaching
  its handler: the model call returns and the JSON parser raises nothing but
  \<open>JSONDecodeError\<close>. Then in the state the stage returns exactly one of
  \<open>analysis_result\<close> and \<open>raw_analysis\<close> is set: \<open>analysis_result\<close> when the extracted
  object validated, \<open>raw_analysis\<close> otherwise, holding the parsed object when there is
  one and the diagnostic \<open>raw_response\<close> entry when the text held no object that
  parses (or an empty one). The metadata (timestamp, identifier, whether documents
  were used, document count, model name, version, token usage) is the \<open>metadata\<close> of
  the result in the first case and stored under the key \<open>metadata\<close> in the second.
  (If instead the parser raises another exception, the handler sets \<open>error\<close> and
  neither field is set.)
\<close>

theorem analysis_sets_exactly_one:
  assumes "s4 = download_pdfs_node E (find_pdf_urls_node E (fetch_subsidy_info_node E
                  (extract_bdns_node E (initial_state code src data))))"
      and "llm_invoke E (build_prompt (rt E) (subsidy_data s4) (pdf_texts s4))
             = Inr (analysis_text, token_usage)"
  shows "(extract_json_from_text (json_loads E) analysis_text = Inr parsed \<longrightarrow>
          (let s5 = analyze_subsidy_node E s4;
               meta = [(py ''analysis_date'', JStr (now_isoformat E)),
                       (py ''subsidy_code'', bdns_code s4),
                       (py ''used_pdf'', JBool (pdf_texts s4 \<noteq> [])),
                       (py ''pdf_count'', JNum (pdf_count s4)),
                       (py ''model_used'', JStr (model_name E)),
                       (py ''version'', JStr (py ''3.0-langgraph'')),
                       (py ''token_usage'',
                          (case token_usage of [] \<Rightarrow> JNull | u # _ \<Rightarrow> usage_json u))]
           in ((analysis_result s5 \<noteq> None) \<noteq> (raw_analysis s5 \<noteq> None))
              \<and> (case parsed of
                    Some (kv # kvs) \<Rightarrow>
                      (case validate_result (kv # kvs) of
                         Some r \<Rightarrow> analysis_result s5 = Some (r\<lparr>metadata := meta\<rparr>)
                                    \<and> raw_analysis s5 = None
                       | None \<Rightarrow> analysis_result s5 = None
                                 \<and> raw_analysis s5
                                     = Some (dict_set (kv # kvs) (py ''metadata'') (JObj meta)))
                  | _ \<Rightarrow> analysis_result s5 = None
                         \<and> raw_analysis s5
                             = Some [(py ''raw_response'', JStr analysis_text),
                                     (py ''metadata'', JObj meta)])))
       \<and> (extract_json_from_text (json_loads E) analysis_text = Inl e \<longrightarrow>
            analysis_result (analyze_subsidy_node E s4) = None
            \<and> raw_analysis (analyze_subsidy_node E s4) = None
            \<and> error (analyze_subsidy_node E s4) = Some (py ''Error in LLM analysis: '' @ e))"
proof (intro conjI impI)
  have n: "analysis_result s4 = None" "raw_analysis s4 = None"
    unfolding assms(1) by (rule before_download)+
  have "pdf_count s4 = int (length (pdf_texts s4))"
    unfolding assms(1) by (rule download_count) (simp add: before_download)
  then have m: "build_metadata E s4 (pdf_texts s4) token_usage =
      [(py ''analysis_date'', JStr (now_isoformat E)),
       (py ''subsidy_code'', bdns_code s4),
       (py ''used_pdf'', JBool (pdf_texts s4 \<noteq> [])),
       (py ''pdf_count'', JNum (pdf_count s4)),
       (py ''model_used'', JStr (model_name E)),
       (py ''version'', JStr (py ''3.0-langgraph'')),
       (py ''token_usage'', (case token_usage of [] \<Rightarrow> JNull | u # _ \<Rightarrow> usage_json u))]"
    by (simp add: build_metadata_def)
  {
    assume p: "extract_json_from_text (json_loads E) analysis_text = Inr parsed"
    show "let s5 = analyze_subsidy_node E s4;
               meta = [(py ''analysis_date'', JStr (now_isoformat E)),
                       (py ''subsidy_code'', bdns_code s4),
                       (py ''used_pdf'', JBool (pdf_texts s4 \<noteq> [])),
                       (py ''pdf_count'', JNum (pdf_count s4)),
                       (py ''model_used'', JStr (model_name E)),
                       (py ''version'', JStr (py ''3.0-langgraph'')),
                       (py ''token_usage'',
                          (case token_usage of [] \<Rightarrow> JNull | u # _ \<Rightarrow> usage_json u))]
           in ((analysis_result s5 \<noteq> None) \<noteq> (raw_analysis s5 \<noteq> None))
              \<and> (case parsed of
                    Some (kv # kvs) \<Rightarrow>
                      (case validate_result (kv # kvs) of
                         Some r \<Rightarrow> analysis_result s5 = Some (r\<lparr>metadata := meta\<rparr>)
                                    \<and> raw_analysis s5 = None
                       | None \<Rightarrow> analysis_result s5 = None
                                 \<and> raw_analysis s5
                                     = Some (dict_set (kv # kvs) (py ''metadata'') (JObj meta)))
                  | _ \<Rightarrow> analysis_result s5 = None
                         \<and> raw_analysis s5
                             = Some [(py ''raw_response'', JStr analysis_text),
                                     (py ''metadata'', JObj meta)])"
      using analysis_outcome [OF assms(2) n p] unfolding m .
  }
  {
    assume q: "extract_json_from_text (json_loads E) analysis_text = Inl e"
    show "analysis_result (analyze_subsidy_node E s4) = None"
      and "raw_analysis (analyze_subsidy_node E s4) = None"
      and "error (analyze_subsidy_node E s4) = Some (py ''Error in LLM analysis: '' @ e)"
      using analysis_raised [OF assms(2) q] n by simp_all
  }
qed

theorem analysis_sets_exactly_one_witness:
  "analysis_result (analyze_subsidy_node sample_env
      (download_pdfs_node sample_env (find_pdf_urls_node sample_env
         (fetch_subsidy_info_node sample_env
            (extract_bdns_node sample_env (initial_state (JStr (py ''845133'')) JNull [])))))) \<noteq> None
   \<and> raw_analysis (analyze_subsidy_node sample_env
      (download_pdfs_node sample_env (find_pdf_urls_node sample_env
         (fetch_subsidy_info_node sample_env
            (extract_bdns_node sample_env (initial_state (JStr (py ''845133'')) JNull [])))))) = None"
proof -
  let ?s4 = "download_pdfs_node sample_env (find_pdf_urls_node sample_env
         (fetch_subsidy_info_node sample_env
            (extract_bdns_node sample_env (initial_state (JStr (py ''845133'')) JNull []))))"
  have h: "llm_invoke sample_env (build_prompt (rt sample_env) (subsidy_data ?s4) (pdf_texts ?s4))
             = Inr (sample_response, [])"
    by (simp add: sample_env_def)
  obtain kv kvs where o: "sample_object = kv # kvs" by (simp add: sample_object_def)
  obtain r where r: "validate_result (kv # kvs) = Some r" using sample_validates o by auto
  have p: "extract_json_from_text (json_loads sample_env) sample_response = Inr (Some (kv # kvs))"
    using sample_parses o by simp
  show ?thesis
    using analysis_sets_exactly_one [OF refl h, THEN conjunct1, rule_format, OF p]
    by (simp add: Let_def r)
qed

section \<open>The entry points\<close>

lemma catch_error_set:
  "(\<And>s'. r = Inr s' \<Longrightarrow> error_set s') \<Longrightarrow> what \<noteq> [] \<Longrightarrow> error_set (catch what r)"
  by (cases r) (auto simp: catch_def error_set_def logger_error_def py_def)

lemma extract_keeps_error: "error_set s \<Longrightarrow> error_set (extract_bdns_node E s)"
  unfolding extract_bdns_node_def
  by (rule catch_error_set)
     (auto simp: extract_bdns_body_def Let_def add_log_def logger_info_def error_set_def py_def
       split: if_splits json.splits option.splits prod.splits)

lemma fetch_keeps_error: "error_set s \<Longrightarrow> error_set (fetch_subsidy_info_node E s)"
  unfolding fetch_subsidy_info_node_def
  by (rule catch_error_set)
     (auto simp: fetch_subsidy_info_body_def Let_def add_log_def logger_info_def logger_warning_def
       error_set_def py_def split: if_splits sum.splits)

lemma find_keeps_error: "error_set s \<Longrightarrow> error_set (find_pdf_urls_node E s)"
  unfolding find_pdf_urls_node_def
  using find_body_cases [of E s]
  by (intro catch_error_set) (auto simp: error_set_def)

lemma download_keeps_error: "error_set s \<Longrightarrow> error_set (download_pdfs_node E s)"
  unfolding download_pdfs_node_def
  by (rule catch_error_set)
     (auto simp: download_pdfs_body_def Let_def add_log_def logger_info_def download_loop_eq
       error_set_def split: if_splits sum.splits)

lemma store_keeps_error: "error_set s \<Longrightarrow> error_set (store_parsed E j t s)"
  by (auto simp: store_parsed_def logger_info_def logger_warning_def logger_error_def
      error_set_def py_def split: option.splits list.splits)

lemma attach_keeps_error: "error_set s \<Longrightarrow> error_set (attach_metadata m s)"
  by (auto simp: attach_metadata_def error_set_def split: option.splits list.splits)

lemma analyze_keeps_error: "error_set s \<Longrightarrow> error_set (analyze_subsidy_node E s)"
  unfolding analyze_subsidy_node_def
proof (rule catch_error_set)
  fix s' assume a: "error_set s" "analyze_subsidy_body E s = Inr s'"
  then obtain j t u c where "s' = add_log (py ''LLM analysis completed'')
       (attach_metadata (build_metadata E (store_parsed E j t (s\<lparr>console := c\<rparr>)) (pdf_texts s) u)
          (store_parsed E j t (s\<lparr>console := c\<rparr>)))"
    by (auto simp: analyze_subsidy_body_def Let_def logger_info_def store_analysis_def
        split: sum.splits prod.splits list.splits)
  moreover have "error_set (s\<lparr>console := c\<rparr>)" for c using a(1) by (simp add: error_set_def)
  ultimately show "error_set s'"
    using store_keeps_error attach_keeps_error by (simp add: add_log_def error_set_def)
qed simp

lemma save_keeps_error: "error_set s \<Longrightarrow> error_set (save_results_node E s)"
  unfolding save_results_node_def
  by (rule catch_error_set)
     (auto simp: save_results_body_def Let_def add_log_def logger_info_def logger_warning_def
       error_set_def split: if_splits sum.splits option.splits)

lemma extract_sets_error:
  assumes "\<not> truthy (bdns_code s)"
      and "\<not> truthy (py_or (dict_get (subsidy_data s) (py ''codigo_bdns''))
                           (dict_get (subsidy_data s) (py ''bdns_code'')))"
      and "case source_url s of JStr v \<Rightarrow> extract_bdns_from_url (rt E) v = None | _ \<Rightarrow> True"
  shows "error_set (extract_bdns_node E s)"
  using assms
  by (cases "source_url s")
     (auto simp: extract_bdns_node_def extract_bdns_body_def catch_def Let_def error_set_def
       logger_error_def py_def re_type_error_def)


lemma run_workflow_trace:
  "snd (run_workflow E s) = fixed_order_trace E s"
  "fst (run_workflow E s) =
     (let final_state = snd (last (fixed_order_trace E s))
      in \<lparr>success = (case error final_state of None \<Rightarrow> True | Some e \<Rightarrow> e = []),
          res_analysis_result = analysis_result final_state,
          res_raw_analysis = raw_analysis final_state,
          res_processing_time = elapsed E,
          res_pdf_count = pdf_count final_state,
          res_logs = logs final_state,
          res_error = error final_state\<rparr>)"
  by (simp_all add: run_workflow_def invoke_build_workflow Let_def)

lemma trace_names: "map fst (fixed_order_trace E s) = stage_names"
  by (simp add: fixed_order_trace_def stage_names_def Let_def)

lemma run_keeps_error:
  assumes "error_set (extract_bdns_node E s)"
  shows "error_set (snd (last (fixed_order_trace E s)))"
  using assms
  by (simp add: fixed_order_trace_def Let_def save_keeps_error analyze_keeps_error
      download_keeps_error find_keeps_error fetch_keeps_error)

lemma data_run_fails:
  assumes "\<not> truthy (py_or (dict_get data (py ''codigo_bdns'')) (dict_get data (py ''bdns_code'')))"
      and "truthy (dict_get data (py ''source_url''))"
      and "case dict_get data (py ''source_url'') of
             JStr v \<Rightarrow> extract_bdns_from_url (rt E) v = None | _ \<Rightarrow> True"
  shows "\<not> success (fst (analyze_from_data E data))
         \<and> (\<exists>e. res_error (fst (analyze_from_data E data)) = Some e \<and> e \<noteq> [])
         \<and> res_processing_time (fst (analyze_from_data E data)) = elapsed E"
proof -
  let ?code = "py_or (dict_get data (py ''codigo_bdns'')) (dict_get data (py ''bdns_code''))"
  let ?s = "initial_state (py_or ?code (JStr [])) (dict_get data (py ''source_url'')) data"
  have c: "\<not> truthy (py_or ?code (JStr []))" using assms(1) by (simp add: py_or_def)
  have "error_set (extract_bdns_node E ?s)"
    by (rule extract_sets_error) (use assms c in \<open>simp_all add: initial_state_def\<close>)
  then have "error_set (snd (last (fixed_order_trace E ?s)))" by (rule run_keeps_error)
  moreover have "analyze_from_data E data = run_workflow E ?s"
    using assms(2) by (simp add: analyze_from_data_def Let_def)
  ultimately show ?thesis
    by (auto simp: run_workflow_trace Let_def error_set_def split: option.splits)
qed

text \<open>
  C3, as the code has it. A data bag that holds neither a code (under \<open>codigo_bdns\<close> or
  \<open>bdns_code\<close>) nor a \<open>source_url\<close>, and a URL without trailing numeric segment given
  to the URL entry point, are rejected at once: \<open>success\<close> is false, \<open>error\<close> holds a
  message, \<open>processing_time\<close> is 0 and no stage is invoked. In every other case all
  six stages are invoked, in order: always for the entry point by identifier, for a
  URL with a numeric segment, and for a data bag that holds a code or a \<open>source_url\<close>.
  This includes the data bag whose \<open>source_url\<close> yields no identifier and that holds
  no code: the six stages run, and the result has \<open>success\<close> false, a non-empty
  \<open>error\<close> and the measured \<open>processing_time\<close>.
\<close>

theorem hard_input_errors:
  "(\<not> truthy (py_or (dict_get data (py ''codigo_bdns'')) (dict_get data (py ''bdns_code'')))
      \<and> \<not> truthy (dict_get data (py ''source_url'')) \<longrightarrow>
        analyze_from_data E data
          = (\<lparr>success = False, res_analysis_result = None, res_raw_analysis = None,
              res_processing_time = 0, res_pdf_count = 0, res_logs = [],
              res_error = Some (py ''Either bdns_code or source_url must be provided in subsidy_data'')\<rparr>,
             []))
   \<and> (extract_bdns_from_url (rt E) u = None \<longrightarrow>
        analyze_from_url E u
          = (\<lparr>success = False, res_analysis_result = None, res_raw_analysis = None,
              res_processing_time = 0, res_pdf_count = 0, res_logs = [],
              res_error = Some (py ''Could not extract BDNS code from URL: '' @ u)\<rparr>,
             []))
   \<and> (truthy (py_or (dict_get data (py ''codigo_bdns'')) (dict_get data (py ''bdns_code'')))
        \<or> truthy (dict_get data (py ''source_url'')) \<longrightarrow>
        map fst (snd (analyze_from_data E data)) = stage_names)
   \<and> map fst (snd (analyze_from_bdns E code)) = stage_names
   \<and> (extract_bdns_from_url (rt E) u = Some code \<longrightarrow>
        map fst (snd (analyze_from_url E u)) = stage_names)
   \<and> (\<not> truthy (py_or (dict_get data (py ''codigo_bdns'')) (dict_get data (py ''bdns_code'')))
        \<and> truthy (dict_get data (py ''source_url''))
        \<and> (case dict_get data (py ''source_url'') of
              JStr v \<Rightarrow> extract_bdns_from_url (rt E) v = None | _ \<Rightarrow> True) \<longrightarrow>
        \<not> success (fst (analyze_from_data E data))
        \<and> (\<exists>e. res_error (fst (analyze_from_data E data)) = Some e \<and> e \<noteq> [])
        \<and> res_processing_time (fst (analyze_from_data E data)) = elapsed E)"
proof (intro conjI impI)
  assume "\<not> truthy (py_or (dict_get data (py ''codigo_bdns'')) (dict_get data (py ''bdns_code'')))
      \<and> \<not> truthy (dict_get data (py ''source_url''))"
  then show "analyze_from_data E data
          = (\<lparr>success = False, res_analysis_result = None, res_raw_analysis = None,
              res_processing_time = 0, res_pdf_count = 0, res_logs = [],
              res_error = Some (py ''Either bdns_code or source_url must be provided in subsidy_data'')\<rparr>,
             [])"
    by (simp add: analyze_from_data_def rejected_def Let_def)
next
  assume "extract_bdns_from_url (rt E) u = None"
  then show "analyze_from_url E u
          = (\<lparr>success = False, res_analysis_result = None, res_raw_analysis = None,
              res_processing_time = 0, res_pdf_count = 0, res_logs = [],
              res_error = Some (py ''Could not extract BDNS code from URL: '' @ u)\<rparr>,
             [])"
    by (simp add: analyze_from_url_def rejected_def)
next
  assume "truthy (py_or (dict_get data (py ''codigo_bdns'')) (dict_get data (py ''bdns_code'')))
        \<or> truthy (dict_get data (py ''source_url''))"
  then show "map fst (snd (analyze_from_data E data)) = stage_names"
    by (auto simp: analyze_from_data_def Let_def run_workflow_trace trace_names)
next
  show "map fst (snd (analyze_from_bdns E code)) = stage_names"
    by (simp add: analyze_from_bdns_def run_workflow_trace trace_names)
next
  assume "extract_bdns_from_url (rt E) u = Some code"
  then show "map fst (snd (analyze_from_url E u)) = stage_names"
    by (simp add: analyze_from_url_def analyze_from_bdns_def run_workflow_trace trace_names)
next
  assume a: "\<not> truthy (py_or (dict_get data (py ''codigo_bdns'')) (dict_get data (py ''bdns_code'')))
        \<and> truthy (dict_get data (py ''source_url''))
        \<and> (case dict_get data (py ''source_url'') of
              JStr v \<Rightarrow> extract_bdns_from_url (rt E) v = None | _ \<Rightarrow> True)"
  show "\<not> success (fst (analyze_from_data E data))"
    and "\<exists>e. res_error (fst (analyze_from_data E data)) = Some e \<and> e \<noteq> []"
    and "res_processing_time (fst (analyze_from_data E data)) = elapsed E"
    using a data_run_fails [of data E] by blast+
qed

theorem hard_input_errors_witness:
  "analyze_from_data offline_env [(py ''titulo'', JStr (py ''Ayudas''))]
     = (\<lparr>success = False, res_analysis_result = None, res_raw_analysis = None,
         res_processing_time = 0, res_pdf_count = 0, res_logs = [],
         res_error = Some (py ''Either bdns_code or source_url must be provided in subsidy_data'')\<rparr>,
        [])
   \<and> map fst (snd (analyze_from_data offline_env [(py ''bdns_code'', JStr (py ''845133''))]))
       = stage_names"
proof -
  have h1: "\<not> truthy (py_or (dict_get [(py ''titulo'', JStr (py ''Ayudas''))] (py ''codigo_bdns''))
                            (dict_get [(py ''titulo'', JStr (py ''Ayudas''))] (py ''bdns_code'')))
      \<and> \<not> truthy (dict_get [(py ''titulo'', JStr (py ''Ayudas''))] (py ''source_url''))"
    by (simp add: py_or_def dict_get_def py_def)
  have h2: "truthy (py_or (dict_get [(py ''bdns_code'', JStr (py ''845133''))] (py ''codigo_bdns''))
                          (dict_get [(py ''bdns_code'', JStr (py ''845133''))] (py ''bdns_code'')))
        \<or> truthy (dict_get [(py ''bdns_code'', JStr (py ''845133''))] (py ''source_url''))"
    by (simp add: py_or_def dict_get_def py_def)
  note a = hard_input_errors [where E = offline_env and data = "[(py ''titulo'', JStr (py ''Ayudas''))]",
      THEN conjunct1, rule_format, OF h1]
  note b = hard_input_errors [where E = offline_env
        and data = "[(py ''bdns_code'', JStr (py ''845133''))]",
      THEN conjunct2, THEN conjunct2, THEN conjunct1, rule_format, OF h2]
  from a b show ?thesis by simp
qed

text \<open>
  The claim as written fails for a data bag with a \<open>source_url\<close> that has no numeric
  segment and no code: no identifier is derivable, yet all six stages are invoked.
\<close>

theorem url_without_identifier_starts_pipeline:
  "py_or (dict_get [(py ''source_url'', JStr (py ''https://example.org/ayudas''))] (py ''codigo_bdns''))
         (dict_get [(py ''source_url'', JStr (py ''https://example.org/ayudas''))] (py ''bdns_code''))
     = JNull
   \<and> extract_bdns_from_url ascii_rt (py ''https://example.org/ayudas'') = None
   \<and> map fst (snd (analyze_from_data offline_env
                      [(py ''source_url'', JStr (py ''https://example.org/ayudas''))]))
       = [''extract_bdns'', ''fetch_subsidy_info'', ''find_pdf_urls'', ''download_pdfs'',
          ''analyze_subsidy'', ''save_results'']"
  by (simp add: py_or_def dict_get_def extract_bdns_from_url_def re_digit_def ascii_digit_def
      analyze_from_data_def Let_def run_workflow_trace trace_names stage_names_def py_def)

section \<open>The document locator\<close>

lemma display_name_eq: "display_name d = descriptor_name d"
  by (simp add: display_name_def descriptor_name_def py_or_def)

lemma declared_type_eq: "declared_type d = descriptor_type d"
  by (simp add: declared_type_def descriptor_type_def py_or_def)

lemma readable_candidate:
  assumes "readable (JObj d)"
  shows "is_pdf_candidate (rt E) (declared_type d) (display_name d) (dict_get d (py ''id''))
           = Inr (pdf_candidate (rt E) d)"
  using assms
  by (auto simp: is_pdf_candidate_def pdf_candidate_def readable_def display_name_eq
      declared_type_eq split: json.splits)

lemma find_loop_objects:
  assumes "\<forall>d \<in> set ds. readable (JObj d)"
  shows "find_loop E b (map JObj ds) acc s =
           Inr (acc @ map (ref_of E b) (filter (pdf_candidate (rt E)) ds),
                s\<lparr>console := console s @
                     map (\<lambda>d. (INFO, py ''Found PDF: '' @ py_str (rt E) (descriptor_name d)))
                         (filter (pdf_candidate (rt E)) ds)\<rparr>)"
  using assms
proof (induction ds arbitrary: acc s)
  case Nil
  then show ?case by simp
next
  case (Cons d ds)
  then have "readable (JObj d)" by simp
  note c = readable_candidate [OF this, of E, unfolded display_name_eq declared_type_eq]
  show ?case
    using Cons
    by (simp add: doc_fields_def c ref_of_def logger_info_def doc_url_of_def display_name_eq
        declared_type_eq)
qed

lemma find_loop_raises:
  assumes "\<exists>doc \<in> set docs. \<not> readable doc"
  shows "\<exists>e s'. find_loop E b docs acc s = Inl (e, s')"
  using assms
proof (induction docs arbitrary: acc s)
  case Nil
  then show ?case by simp
next
  case (Cons doc docs)
  show ?case
  proof (cases "readable doc")
    case True
    then obtain d where d: "doc = JObj d" by (auto simp: readable_def split: json.splits)
    from True Cons.prems have "\<exists>x \<in> set docs. \<not> readable x" by auto
    note ih = Cons.IH [OF this]
    have c: "is_pdf_candidate (rt E) (declared_type d) (display_name d) (dict_get d (py ''id''))
               = Inr (pdf_candidate (rt E) d)"
      using readable_candidate [of d E] True d by simp
    show ?thesis
    proof (cases "pdf_candidate (rt E) d")
      case True
      then show ?thesis using ih c by (simp add: d doc_fields_def)
    next
      case False
      then show ?thesis using ih c by (simp add: d doc_fields_def)
    qed
  next
    case False
    then show ?thesis
      by (cases doc)
         (auto simp: readable_def doc_fields_def is_pdf_candidate_def display_name_eq
           declared_type_eq split: json.splits)
  qed
qed

lemma find_objects:
  assumes "dict_get (subsidy_data s) (py ''documentos'') = JArr (map JObj ds)"
      and "\<forall>d \<in> set ds. readable (JObj d)"
  shows "pdf_urls (find_pdf_urls_node E s)
           = map (ref_of E (bdns_code s)) (filter (pdf_candidate (rt E)) ds)"
    and "error (find_pdf_urls_node E s) = error s"
  using assms(1) find_loop_objects [OF assms(2), of E]
  by (cases ds; simp add: find_pdf_urls_node_def find_pdf_urls_body_def catch_def Let_def
        add_log_def logger_info_def)+

lemma find_unreadable:
  assumes "dict_get (subsidy_data s) (py ''documentos'') = JArr docs"
      and "\<exists>doc \<in> set docs. \<not> readable doc"
  shows "(\<exists>e. error (find_pdf_urls_node E s) = Some (py ''Error finding PDFs: '' @ e))
         \<and> pdf_urls (find_pdf_urls_node E s) = pdf_urls s"
proof -
  let ?s0 = "logger_info (py ''Found '' @ int_str (int (length docs)) @ py '' documents in API'') s"
  obtain e s' where l: "find_loop E (bdns_code s) docs [] ?s0 = Inl (e, s')"
    using find_loop_raises [OF assms(2)] by blast
  from find_loop_frame(2) [OF l] have "s' = ?s0\<lparr>console := console s'\<rparr>" .
  then have "pdf_urls s' = pdf_urls (?s0\<lparr>console := console s'\<rparr>)" by simp
  then have s': "pdf_urls s' = pdf_urls s" by (simp add: logger_info_def)
  have ne: "docs \<noteq> []" using assms(2) by auto
  have "find_pdf_urls_body E s = Inl (e, s')"
    using assms(1) ne l by (simp add: find_pdf_urls_body_def Let_def)
  then show ?thesis
    using s' by (simp add: find_pdf_urls_node_def catch_def logger_error_def)
qed

lemma find_nothing:
  assumes "\<not> truthy (dict_get (subsidy_data s) (py ''documentos''))"
  shows "pdf_urls (find_pdf_urls_node E s) = [] \<and> error (find_pdf_urls_node E s) = error s"
  using assms
  by (simp add: find_pdf_urls_node_def find_pdf_urls_body_def catch_def Let_def add_log_def
      logger_info_def)

lemma scenario_b:
  assumes "bdns_code s = JStr (py ''845133'')"
      and "dict_get (subsidy_data s) (py ''documentos'')
             = JArr [JObj [(py ''tipo'', JStr (py ''PDF'')), (py ''nombreFic'', JStr (py ''Bases.pdf'')),
                           (py ''id'', JStr (py ''7''))]]"
  shows "pdf_urls (find_pdf_urls_node E s)
           = [\<lparr>url = py ''https://www.subvenciones.gob.es/bdnstrans/GE/es/convocatoria/845133/document/7'',
               name = JStr (py ''Bases.pdf''), id_key = JStr (py ''7'')\<rparr>]"
proof -
  let ?d = "[(py ''tipo'', JStr (py ''PDF'')), (py ''nombreFic'', JStr (py ''Bases.pdf'')),
             (py ''id'', JStr (py ''7''))]"
  have dn: "descriptor_name ?d = JStr (py ''Bases.pdf'')"
    by (simp add: descriptor_name_def dict_get_def py_def)
  have dt: "descriptor_type ?d = JStr (py ''PDF'')"
    by (simp add: descriptor_type_def dict_get_def py_def)
  have di: "dict_get ?d (py ''id'') = JStr (py ''7'')"
    by (simp add: dict_get_def py_def)
  have a: "dict_get (subsidy_data s) (py ''documentos'') = JArr (map JObj [?d])"
    using assms(2) by simp
  have b: "\<forall>d \<in> set [?d]. readable (JObj d)" by (simp add: readable_def dt)
  have c: "pdf_candidate (rt E) ?d" by (simp add: pdf_candidate_def dt di) (simp add: py_def)
  have "pdf_urls (find_pdf_urls_node E s) = [ref_of E (bdns_code s) ?d]"
    unfolding find_objects(1) [OF a b] using c by simp
  also have "\<dots> = [\<lparr>url = py ''https://www.subvenciones.gob.es/bdnstrans/GE/es/convocatoria/845133/document/7'',
               name = JStr (py ''Bases.pdf''), id_key = JStr (py ''7'')\<rparr>]"
    by (simp add: ref_of_def dn di assms(1)) (simp add: py_def)
  finally show ?thesis .
qed

text \<open>
  C8, as the code has it. Let the data bag hold a documents collection, a list. If
  every entry is readable (an object whose display name is a string, or whose type is
  \<open>PDF\<close>), then \<open>pdf_urls\<close> holds, in the order of the collection, exactly the entries
  that are PDF candidates: those whose declared type is the token \<open>PDF\<close> or whose
  display name contains \<open>pdf\<close> in any case of letters, and whose id field holds a
  true value (an id that is missing, \<open>None\<close>, \<open>0\<close>, \<open>False\<close> or empty does not count). Each
  comes with the document URL built from the identifier and its id, its display name
  and its id. If some entry is not readable, the stage sets \<open>error\<close> and leaves
  \<open>pdf_urls\<close> as it was; if the collection is missing or empty, \<open>pdf_urls\<close> is empty.
  In particular the descriptor \<open>{"tipo": "PDF", "nombreFic": "Bases.pdf", "id": "7"}\<close>
  with identifier \<open>845133\<close> gives exactly one entry, with a URL ending in
  \<open>/845133/document/7\<close> and the display name \<open>Bases.pdf\<close>.
\<close>

theorem document_locator_classification:
  "(dict_get (subsidy_data s) (py ''documentos'') = JArr (map JObj ds)
      \<and> (\<forall>d \<in> set ds. readable (JObj d)) \<longrightarrow>
        pdf_urls (find_pdf_urls_node E s)
          = map (ref_of E (bdns_code s)) (filter (pdf_candidate (rt E)) ds)
        \<and> error (find_pdf_urls_node E s) = error s)
   \<and> (dict_get (subsidy_data s) (py ''documentos'') = JArr docs
        \<and> (\<exists>doc \<in> set docs. \<not> readable doc) \<longrightarrow>
        (\<exists>e. error (find_pdf_urls_node E s) = Some (py ''Error finding PDFs: '' @ e))
        \<and> pdf_urls (find_pdf_urls_node E s) = pdf_urls s)
   \<and> (\<not> truthy (dict_get (subsidy_data s) (py ''documentos'')) \<longrightarrow>
        pdf_urls (find_pdf_urls_node E s) = [] \<and> error (find_pdf_urls_node E s) = error s)
   \<and> (bdns_code s = JStr (py ''845133'')
        \<and> dict_get (subsidy_data s) (py ''documentos'')
            = JArr [JObj [(py ''tipo'', JStr (py ''PDF'')),
                          (py ''nombreFic'', JStr (py ''Bases.pdf'')),
                          (py ''id'', JStr (py ''7''))]] \<longrightarrow>
        pdf_urls (find_pdf_urls_node E s)
          = [\<lparr>url = py ''https://www.subvenciones.gob.es/bdnstrans/GE/es/convocatoria/845133/document/7'',
              name = JStr (py ''Bases.pdf''), id_key = JStr (py ''7'')\<rparr>])"
  using find_objects [of s ds E] find_unreadable [of s docs E] find_nothing [of s E]
    scenario_b [of s E]
  by blast

theorem document_locator_classification_witness:
  "pdf_urls (find_pdf_urls_node offline_env scenario_b_state)
     = [\<lparr>url = py ''https://www.subvenciones.gob.es/bdnstrans/GE/es/convocatoria/845133/document/7'',
         name = JStr (py ''Bases.pdf''), id_key = JStr (py ''7'')\<rparr>]"
proof -
  have h: "bdns_code scenario_b_state = JStr (py ''845133'')
        \<and> dict_get (subsidy_data scenario_b_state) (py ''documentos'')
            = JArr [JObj [(py ''tipo'', JStr (py ''PDF'')),
                          (py ''nombreFic'', JStr (py ''Bases.pdf'')),
                          (py ''id'', JStr (py ''7''))]]"
    by (simp add: scenario_b_state_def initial_state_def dict_get_def)
  show ?thesis
    using document_locator_classification [of scenario_b_state _ offline_env,
        THEN conjunct2, THEN conjunct2, THEN conjunct2, rule_format, OF h] .
qed

text \<open>
  The claim as written fails for a descriptor whose id field is present and holds the
  number 0: its type is \<open>PDF\<close> and its name contains \<open>pdf\<close>, yet it is no candidate.
\<close>

theorem zero_id_is_not_a_candidate:
  "map_of [(py ''tipo'', JStr (py ''PDF'')), (py ''nombreFic'', JStr (py ''Bases.pdf'')),
           (py ''id'', JNum 0)] (py ''id'') = Some (JNum 0)
   \<and> dict_get (subsidy_data zero_id_state) (py ''documentos'')
       = JArr [JObj [(py ''tipo'', JStr (py ''PDF'')), (py ''nombreFic'', JStr (py ''Bases.pdf'')),
                     (py ''id'', JNum 0)]]
   \<and> pdf_urls (find_pdf_urls_node offline_env zero_id_state) = []
   \<and> error (find_pdf_urls_node offline_env zero_id_state) = None"
  by (simp add: zero_id_state_def initial_state_def find_pdf_urls_node_def find_pdf_urls_body_def
      catch_def Let_def dict_get_def doc_fields_def display_name_def declared_type_def py_or_def
      is_pdf_candidate_def add_log_def logger_info_def py_def)

section \<open>The document acquirer\<close>

lemma download_one_some_iff:
  "fst (download_one E b dir r) \<noteq> None \<longleftrightarrow>
     (\<exists>resp n pages. session_get E (url r) = Inr resp \<and> status_code resp = 200
        \<and> validate_pdf_content (content resp) \<and> name r = JStr n
        \<and> write_bytes E (path_join (rt E) dir
              (py_str (rt E) b @ py ''_'' @ clean_filename (rt E) n 50 @ py ''.pdf''))
              (content resp) = None
        \<and> pdf_pages E (content resp) = Inr pages
        \<and> py_strip (rt E) (page_text pages) \<noteq> [])"
  by (auto simp: download_one_def Let_def split: sum.splits json.splits option.splits if_splits)

lemma download_one_entry:
  assumes "fst (download_one E b dir r) = Some t"
  shows "filename t = name r
         \<and> (\<exists>resp pages. session_get E (url r) = Inr resp \<and> pdf_pages E (content resp) = Inr pages
               \<and> text_key t = page_text pages)"
  using assms
  by (auto simp: download_one_def Let_def split: sum.splits json.splits option.splits if_splits)

lemma download_one_logged:
  assumes "fst (download_one E b dir r) = None"
  shows "\<exists>m. last (snd (download_one E b dir r)) = (WARNING, m)
             \<or> last (snd (download_one E b dir r)) = (ERROR, m)"
  using assms
  by (auto simp: download_one_def Let_def split: sum.splits json.splits option.splits if_splits)

lemma map_filter_filenames:
  "map filename (List.map_filter (\<lambda>r. fst (download_one E b dir r)) refs)
     = map name (filter (\<lambda>r. fst (download_one E b dir r) \<noteq> None) refs)"
proof (induction refs)
  case Nil
  then show ?case by (simp add: List.map_filter_simps)
next
  case (Cons r refs)
  show ?case
  proof (cases "fst (download_one E b dir r)")
    case None
    then show ?thesis using Cons by (simp add: List.map_filter_simps)
  next
    case (Some t)
    then show ?thesis using Cons download_one_entry [OF Some]
      by (simp add: List.map_filter_simps)
  qed
qed

lemma download_node_eq:
  assumes "create_download_directory E = Inr dir"
  shows "pdf_texts (download_pdfs_node E s)
           = List.map_filter (\<lambda>r. fst (download_one E (bdns_code s) dir r)) (pdf_urls s)"
    and "pdf_count (download_pdfs_node E s) = int (length (pdf_texts (download_pdfs_node E s)))"
    and "error (download_pdfs_node E s) = error s"
    and "pdf_urls s \<noteq> [] \<Longrightarrow> console (download_pdfs_node E s)
           = console s @ concat (map (\<lambda>r. snd (download_one E (bdns_code s) dir r)) (pdf_urls s))"
  using assms
  by (simp_all add: download_pdfs_node_def download_pdfs_body_def catch_def Let_def add_log_def
      logger_info_def download_loop_eq List.map_filter_simps)

text \<open>
  C7. Provided the download directory can be created, the Document Acquirer handles
  the references one by one, each on its own: \<open>pdf_texts\<close> is made of the entries that
  the single references yield, in the order of \<open>pdf_urls\<close>, so the names in
  \<open>pdf_texts\<close> are the names of the successful references in their original order. A
  reference yields an entry exactly when its request returned status 200, the bytes
  begin with \<open>%PDF\<close>, and a text was extracted that is not empty after stripping
  (which takes the file to have been stored under the sanitized name and the
  extraction not to have raised); the entry holds the name of the reference and the
  extracted text. In every other case the reference yields nothing, no placeholder
  either, and the last record the logger gets for it is a warning or an error. What
  one reference yields does not depend on the others, and everything logged for any
  reference is in the logger's output at the end.
\<close>

theorem document_acquirer_per_item:
  assumes "create_download_directory E = Inr dir"
  shows "pdf_texts (download_pdfs_node E s)
           = List.map_filter (\<lambda>r. fst (download_one E (bdns_code s) dir r)) (pdf_urls s)
       \<and> map filename (pdf_texts (download_pdfs_node E s))
           = map name (filter (\<lambda>r. fst (download_one E (bdns_code s) dir r) \<noteq> None) (pdf_urls s))
       \<and> pdf_count (download_pdfs_node E s) = int (length (pdf_texts (download_pdfs_node E s)))
       \<and> error (download_pdfs_node E s) = error s
       \<and> (\<forall>r \<in> set (pdf_urls s). \<forall>x \<in> set (snd (download_one E (bdns_code s) dir r)).
             x \<in> set (console (download_pdfs_node E s)))
       \<and> (fst (download_one E b dir r) \<noteq> None \<longleftrightarrow>
            (\<exists>resp n pages. session_get E (url r) = Inr resp \<and> status_code resp = 200
               \<and> validate_pdf_content (content resp) \<and> name r = JStr n
               \<and> write_bytes E (path_join (rt E) dir
                     (py_str (rt E) b @ py ''_'' @ clean_filename (rt E) n 50 @ py ''.pdf''))
                     (content resp) = None
               \<and> pdf_pages E (content resp) = Inr pages
               \<and> py_strip (rt E) (page_text pages) \<noteq> []))
       \<and> (fst (download_one E b dir r) = Some t \<longrightarrow>
            filename t = name r
            \<and> (\<exists>resp pages. session_get E (url r) = Inr resp
                  \<and> pdf_pages E (content resp) = Inr pages \<and> text_key t = page_text pages))
       \<and> (fst (download_one E b dir r) = None \<longrightarrow>
            (\<exists>m. last (snd (download_one E b dir r)) = (WARNING, m)
                \<or> last (snd (download_one E b dir r)) = (ERROR, m)))
       \<and> validate_pdf_content c = (take 4 c = ''%PDF'')"
proof (intro conjI impI ballI)
  show "pdf_texts (download_pdfs_node E s)
           = List.map_filter (\<lambda>r. fst (download_one E (bdns_code s) dir r)) (pdf_urls s)"
    by (rule download_node_eq(1) [OF assms])
  then show "map filename (pdf_texts (download_pdfs_node E s))
           = map name (filter (\<lambda>r. fst (download_one E (bdns_code s) dir r) \<noteq> None) (pdf_urls s))"
    by (simp add: map_filter_filenames)
  show "pdf_count (download_pdfs_node E s) = int (length (pdf_texts (download_pdfs_node E s)))"
    by (rule download_node_eq(2) [OF assms])
  show "error (download_pdfs_node E s) = error s"
    by (rule download_node_eq(3) [OF assms])
next
  fix r' x assume a: "r' \<in> set (pdf_urls s)" "x \<in> set (snd (download_one E (bdns_code s) dir r'))"
  then have "pdf_urls s \<noteq> []" by auto
  from download_node_eq(4) [OF assms this] a
  show "x \<in> set (console (download_pdfs_node E s))" by auto
next
  show "fst (download_one E b dir r) \<noteq> None \<longleftrightarrow>
            (\<exists>resp n pages. session_get E (url r) = Inr resp \<and> status_code resp = 200
               \<and> validate_pdf_content (content resp) \<and> name r = JStr n
               \<and> write_bytes E (path_join (rt E) dir
                     (py_str (rt E) b @ py ''_'' @ clean_filename (rt E) n 50 @ py ''.pdf''))
                     (content resp) = None
               \<and> pdf_pages E (content resp) = Inr pages
               \<and> py_strip (rt E) (page_text pages) \<noteq> [])"
    by (rule download_one_some_iff)
next
  assume a: "fst (download_one E b dir r) = Some t"
  show "filename t = name r"
    and "\<exists>resp pages. session_get E (url r) = Inr resp
                  \<and> pdf_pages E (content resp) = Inr pages \<and> text_key t = page_text pages"
    using download_one_entry [OF a] by simp_all
next
  assume "fst (download_one E b dir r) = None"
  then show "\<exists>m. last (snd (download_one E b dir r)) = (WARNING, m)
                \<or> last (snd (download_one E b dir r)) = (ERROR, m)"
    by (rule download_one_logged)
next
  show "validate_pdf_content c = (take 4 c = ''%PDF'')" by (simp add: validate_pdf_content_def)
qed


theorem document_acquirer_per_item_witness:
  "map filename (pdf_texts (download_pdfs_node pdf_env two_refs)) = [JStr (py ''b.pdf'')]
   \<and> pdf_count (download_pdfs_node pdf_env two_refs) = 1"
proof -
  have h: "create_download_directory pdf_env = Inr (py ''downloaded_files'')"
    by (simp add: create_download_directory_def pdf_env_def offline_env_def)
  note t = document_acquirer_per_item [OF h, of two_refs]
  have b: "bdns_code two_refs = JStr (py ''845133'')"
    by (simp add: two_refs_def initial_state_def)
  have r1: "fst (download_one pdf_env (JStr (py ''845133'')) (py ''downloaded_files'')
              \<lparr>url = py ''https://x.es/broken'', name = JStr (py ''a.pdf''), id_key = JStr (py ''1'')\<rparr>)
            = None"
    by (simp add: download_one_def pdf_env_def offline_env_def Let_def)
  have r2: "fst (download_one pdf_env (JStr (py ''845133'')) (py ''downloaded_files'')
              \<lparr>url = py ''https://x.es/doc/2'', name = JStr (py ''b.pdf''), id_key = JStr (py ''2'')\<rparr>)
            \<noteq> None"
    by (simp add: download_one_def pdf_env_def offline_env_def ascii_rt_def Let_def
        validate_pdf_content_def page_text_def py_strip_def re_space_def ascii_space_def py_def)
  have f: "map filename (pdf_texts (download_pdfs_node pdf_env two_refs)) = [JStr (py ''b.pdf'')]"
    using t [THEN conjunct2, THEN conjunct1] r1 r2
    by (simp add: b) (simp add: two_refs_def r1 r2)
  have "pdf_count (download_pdfs_node pdf_env two_refs)
          = int (length (map filename (pdf_texts (download_pdfs_node pdf_env two_refs))))"
    using t [THEN conjunct2, THEN conjunct2, THEN conjunct1] by simp
  with f show ?thesis by simp
qed

section \<open>The document count\<close>

text \<open>
  C5. In every run (any identifier, URL and data bag the entry points start from, any
  answers of the collaborators) the state the Document Acquirer returns has
  \<open>pdf_count\<close> equal to the length of \<open>pdf_texts\<close>, and the two later stages return
  states with the same \<open>pdf_count\<close> and the same \<open>pdf_texts\<close>. Stage by stage: the
  acquirer keeps the equation whenever it holds on entry, and the analysis and the
  persistence stage never change \<open>pdf_count\<close>.
\<close>

theorem pdf_count_matches_pdf_texts:
  "(\<exists>s1 s2 s3 s4 s5 s6.
      invoke (build_workflow E) (initial_state code src data)
        = Inr (s6, [(''extract_bdns'', s1), (''fetch_subsidy_info'', s2), (''find_pdf_urls'', s3),
                    (''download_pdfs'', s4), (''analyze_subsidy'', s5), (''save_results'', s6)])
      \<and> pdf_count s4 = int (length (pdf_texts s4))
      \<and> pdf_count s5 = pdf_count s4 \<and> pdf_count s6 = pdf_count s4
      \<and> pdf_texts s5 = pdf_texts s4 \<and> pdf_texts s6 = pdf_texts s4)
   \<and> (pdf_count s = int (length (pdf_texts s)) \<longrightarrow>
        pdf_count (download_pdfs_node E s) = int (length (pdf_texts (download_pdfs_node E s))))
   \<and> pdf_count (analyze_subsidy_node E s) = pdf_count s
   \<and> pdf_count (save_results_node E s) = pdf_count s"
proof (intro conjI impI)
  let ?s3 = "find_pdf_urls_node E (fetch_subsidy_info_node E (extract_bdns_node E
      (initial_state code src data)))"
  have "pdf_count ?s3 = int (length (pdf_texts ?s3))" by (simp add: before_download)
  then have "pdf_count (download_pdfs_node E ?s3) = int (length (pdf_texts (download_pdfs_node E ?s3)))"
    by (rule download_count)
  then show "\<exists>s1 s2 s3 s4 s5 s6.
      invoke (build_workflow E) (initial_state code src data)
        = Inr (s6, [(''extract_bdns'', s1), (''fetch_subsidy_info'', s2), (''find_pdf_urls'', s3),
                    (''download_pdfs'', s4), (''analyze_subsidy'', s5), (''save_results'', s6)])
      \<and> pdf_count s4 = int (length (pdf_texts s4))
      \<and> pdf_count s5 = pdf_count s4 \<and> pdf_count s6 = pdf_count s4
      \<and> pdf_texts s5 = pdf_texts s4 \<and> pdf_texts s6 = pdf_texts s4"
    by (simp add: invoke_build_workflow fixed_order_trace_def Let_def analyze_frame save_frame)
next
  assume "pdf_count s = int (length (pdf_texts s))"
  then show "pdf_count (download_pdfs_node E s) = int (length (pdf_texts (download_pdfs_node E s)))"
    by (rule download_count)
next
  show "pdf_count (analyze_subsidy_node E s) = pdf_count s" by (rule analyze_frame)
next
  show "pdf_count (save_results_node E s) = pdf_count s" by (rule save_frame)
qed

theorem pdf_count_matches_pdf_texts_witness:
  "pdf_count (download_pdfs_node registry_env (find_pdf_urls_node registry_env
      (fetch_subsidy_info_node registry_env (extract_bdns_node registry_env
         (initial_state (JStr (py ''845133'')) JNull []))))) = 1
   \<and> length (pdf_texts (download_pdfs_node registry_env (find_pdf_urls_node registry_env
      (fetch_subsidy_info_node registry_env (extract_bdns_node registry_env
         (initial_state (JStr (py ''845133'')) JNull [])))))) = 1
   \<and> pdf_count (save_results_node registry_env (analyze_subsidy_node registry_env
        (download_pdfs_node registry_env (find_pdf_urls_node registry_env
          (fetch_subsidy_info_node registry_env (extract_bdns_node registry_env
            (initial_state (JStr (py ''845133'')) JNull []))))))) = 1"
proof -
  let ?s0 = "initial_state (JStr (py ''845133'')) JNull []"
  let ?s1 = "extract_bdns_node registry_env ?s0"
  let ?s2 = "fetch_subsidy_info_node registry_env ?s1"
  let ?s3 = "find_pdf_urls_node registry_env ?s2"
  let ?s4 = "download_pdfs_node registry_env ?s3"
  let ?s5 = "analyze_subsidy_node registry_env ?s4"
  let ?s6 = "save_results_node registry_env ?s5"
  let ?ref = "\<lparr>url = py ''https://www.subvenciones.gob.es/bdnstrans/GE/es/convocatoria/845133/document/7'',
               name = JStr (py ''Bases.pdf''), id_key = JStr (py ''7'')\<rparr>"
  have s1: "?s1 = ?s0\<lparr>logs := [py ''BDNS code: 845133'']\<rparr>"
    by (simp add: extract_bdns_node_def extract_bdns_body_def catch_def Let_def add_log_def
        initial_state_def py_def)
  have b2: "bdns_code ?s2 = JStr (py ''845133'')"
    by (simp add: fetch_frame s1) (simp add: initial_state_def)
  have d2: "dict_get (subsidy_data ?s2) (py ''documentos'')
             = JArr [JObj [(py ''tipo'', JStr (py ''PDF'')), (py ''nombreFic'', JStr (py ''Bases.pdf'')),
                           (py ''id'', JStr (py ''7''))]]"
    unfolding s1
    by (simp add: fetch_subsidy_info_node_def fetch_subsidy_info_body_def catch_def Let_def
        add_log_def logger_info_def initial_state_def registry_env_def api_url_of_def
        dict_update_def dict_set_def dict_get_def offline_env_def py_def)
  have u3: "pdf_urls ?s3 = [?ref]" by (rule scenario_b [OF b2 d2])
  have b3: "bdns_code ?s3 = JStr (py ''845133'')" by (simp add: find_frame b2)
  have cd: "create_download_directory registry_env = Inr (py ''downloaded_files'')"
    by (simp add: create_download_directory_def registry_env_def offline_env_def)
  have one: "fst (download_one registry_env (JStr (py ''845133'')) (py ''downloaded_files'') ?ref)
               \<noteq> None"
    by (simp add: download_one_def registry_env_def offline_env_def ascii_rt_def Let_def
        validate_pdf_content_def page_text_def py_strip_def re_space_def ascii_space_def py_def)
  have "pdf_texts ?s4 =
          List.map_filter (\<lambda>r. fst (download_one registry_env (bdns_code ?s3) (py ''downloaded_files'') r))
            (pdf_urls ?s3)"
    by (rule download_node_eq(1) [OF cd])
  then have len: "length (pdf_texts ?s4) = 1"
    using one by (simp add: u3 b3 List.map_filter_simps split: option.splits)
  obtain t1 t2 t3 t4 t5 t6 where
    inv: "invoke (build_workflow registry_env) ?s0
        = Inr (t6, [(''extract_bdns'', t1), (''fetch_subsidy_info'', t2), (''find_pdf_urls'', t3),
                    (''download_pdfs'', t4), (''analyze_subsidy'', t5), (''save_results'', t6)])"
    and c: "pdf_count t4 = int (length (pdf_texts t4))" "pdf_count t5 = pdf_count t4"
           "pdf_count t6 = pdf_count t4"
    using pdf_count_matches_pdf_texts [of registry_env "JStr (py ''845133'')" JNull "[]" ?s0]
    by blast
  from inv have "t4 = ?s4 \<and> t6 = ?s6"
    by (auto simp: invoke_build_workflow fixed_order_trace_def Let_def)
  with c len show ?thesis by simp
qed

end
